theory Spec2Isabelle
  imports Complex_Main "HOL-Library.Word"
begin

section \<open>Data model\<close>

text \<open>
  The program is a Go service over one MySQL database. Every repository function issues
  SQL statements through \<open>database/sql\<close>; the model keeps the tables the statements
  touch in a record and passes it through every call. The record also keeps the list of
  statements issued so far, so that "no storage call was made" is a property of the state.
  The connection never breaks and requests run one at a time. A statement fails only
  where the stored data makes it fail: a value out of the range of its column (MySQL
  error 1264, when the server runs in strict SQL mode) or a negative \<open>LIMIT\<close>.

  Go types: \<open>uint64\<close> is \<open>64 word\<close>; \<open>int\<close> (page, size, offset) is a 64-bit
  two's-complement word read with \<open>sint\<close>; \<open>decimal.Decimal\<close> (arbitrary-precision
  decimal) is an exact rational; \<open>string\<close> is a byte string, so \<open>length\<close> is
  Go's \<open>len\<close>; \<open>time.Time\<close> is a number of seconds. Column types the sources name:
  \<open>DECIMAL(10,2)\<close> for the three amounts of an account and \<open>INT UNSIGNED\<close> for the
  three counters of a resource (comments of \<open>model.UserAccount\<close> and
  \<open>model.Resource\<close>).
\<close>

type_synonym uint64 = "64 word"
type_synonym uint32 = "32 word"
type_synonym go_int = "64 word"
type_synonym decimal = rat
type_synonym time = nat

text \<open>\<open>model.User\<close>: the fields the account and resource services read.\<close>

record User =
  u_ID :: uint64
  u_UUID :: string
  u_Username :: string

text \<open>\<open>model.UserAccount\<close>, also a row of table \<open>user_account\<close>.\<close>

record UserAccount =
  acc_ID :: uint64
  acc_UserUUID :: string
  Balance :: decimal
  TotalRecharge :: decimal
  TotalConsume :: decimal

text \<open>\<open>model.Resource\<close>.\<close>

record Resource =
  res_ID :: uint64
  UserID :: uint64
  Title :: string
  TextContent :: string
  CodeContent :: string
  Author :: string
  PublishTime :: time
  LikeCount :: uint64
  ViewCount :: uint64
  CommentCount :: uint64

text \<open>
  A row of table \<open>resources\<close>, with the columns the repository selects. The columns
  \<open>text_content\<close> and \<open>code_content\<close> are nullable (the repository scans them into
  \<open>sql.NullString\<close>); the counters are \<open>INT UNSIGNED\<close>. The column \<open>updated_at\<close>,
  which only the counter updates write and nothing reads, is kept beside the rows in
  \<open>resources_updated_at\<close>.
\<close>

record resources_row =
  row_id :: uint64
  row_user_id :: uint64
  row_title :: string
  row_text_content :: "string option"
  row_code_content :: "string option"
  row_author :: string
  row_publish_time :: time
  row_like_count :: uint32
  row_view_count :: uint32
  row_comment_count :: uint32

text \<open>\<open>dto.RechargeRequest\<close>, \<open>dto.DeductRequest\<close>, \<open>dto.AccountResponse\<close>, \<open>dto.ResourceItem\<close>.\<close>

record RechargeRequest =
  rc_UserUUID :: string
  rc_Amount :: decimal

record DeductRequest =
  dd_UserUUID :: string
  dd_Amount :: decimal

record AccountResponse =
  rsp_UserUUID :: string
  rsp_Balance :: decimal
  rsp_TotalRecharge :: decimal
  rsp_TotalConsume :: decimal

record ResourceItem =
  it_ID :: uint64
  it_Title :: string
  it_TextContent :: string
  it_CodeContent :: string
  it_Author :: string
  it_PublishTime :: string
  it_UserID :: uint64
  it_LikeCount :: uint64
  it_ViewCount :: uint64
  it_CommentCount :: uint64

text \<open>The SQL statements the repositories issue, with their bound parameters.\<close>

datatype stmt =
    INSERT_user_account string
  | UPDATE_recharge decimal decimal string
  | SELECT_balance string
  | UPDATE_deduct decimal decimal string
  | SELECT_user_account string
  | SELECT_user_by_uuid string
  | SELECT_user_by_id uint64
  | INSERT_resources Resource
  | SELECT_resources_page string int int
  | SELECT_count_resources string
  | SELECT_resource_by_id uint64
  | UPDATE_view_count uint64
  | UPDATE_like_count uint64
  | UPDATE_comment_count uint64

text \<open>
  The database. \<open>user_account\<close> is keyed by \<open>user_uuid\<close>, the column with the unique
  index \<open>uk_user_uuid\<close> that \<open>CreateAccount\<close> handles as MySQL error 1062.
  \<open>resources_updated_at\<close> is the column \<open>updated_at\<close> of \<open>resources\<close> by id; an id
  without an entry still has the value its insert gave it. \<open>server_time\<close> is what
  \<open>CURRENT_TIMESTAMP\<close> reads, and \<open>sql_strict\<close> says whether the server runs in strict
  SQL mode (the default of MySQL; the DSN of the program sets no \<open>sql_mode\<close>): in strict
  mode a value out of the range of its column fails the statement, otherwise it is
  stored as the nearest value of the range.
\<close>

record database =
  users :: "User list"
  user_account :: "string \<rightharpoonup> UserAccount"
  user_account_seq :: uint64
  resources :: "resources_row list"
  resources_seq :: uint64
  resources_updated_at :: "uint64 \<rightharpoonup> time"
  server_time :: time
  sql_strict :: bool
  queries :: "stmt list"

text \<open>
  Every \<open>errors.New\<close> and \<open>fmt.Errorf\<close> of the modelled functions is one constructor;
  \<open>Wrapped\<close> is \<open>fmt.Errorf("...: %w", err)\<close>, tagged with the place that wraps.
\<close>

datatype wrap_site =
    W_CreateAccount | W_UserLookup | W_Recharge | W_Deduct | W_ReadBack
  | W_ExecRecharge | W_ExecDeduct | W_InsertResource
  | W_QueryUser | W_CreateResource | W_CountResources | W_ResourceList | W_ResourceByID
  | W_ViewCount | W_LikeCount | W_CommentCount

datatype error =
    UserUUIDEmpty
  | RechargeAmountNotPositive
  | DeductAmountNotPositive
  | ConsumeAmountNotPositive
  | UserNotExist
  | UserIDNotExist
  | AccountUUIDDuplicate
  | AccountNotExistOrNotUpdated
  | AccountNotExist
  | BalanceInsufficient decimal decimal
  | DeductStateAbnormal
  | AccountInfoNotExist
  | UserIDZero
  | TitleEmpty
  | TitleTooLong nat
  | UserNil uint64
  | UsernameEmpty uint64
  | PageInvalid int
  | SizeInvalid int
  | ResourceIDNotPositive uint64
  | ResourceIDInvalid uint64
  | CommentEmpty
  | MySQLError
  | MySQLOutOfRange
  | ViewCountMySQLError
  | LikeCountMySQLError
  | CommentCountMySQLError
  | Wrapped wrap_site error

type_synonym 'a result = "(error + 'a) \<times> database"

definition exec :: "stmt \<Rightarrow> database \<Rightarrow> database" where
  "exec q db = db\<lparr>queries := queries db @ [q]\<rparr>"

section \<open>Storing a value into a column\<close>

text \<open>
  A value stored into a \<open>DECIMAL(10,2)\<close> column is rounded to two places, halves away
  from zero, and must lie between \<open>-99999999.99\<close> and \<open>99999999.99\<close>. \<open>None\<close> is the
  failure of the statement with error 1264.
\<close>

definition round2 :: "rat \<Rightarrow> rat" where
  "round2 x = (if 0 \<le> x then of_int \<lfloor>x * 100 + 1 / 2\<rfloor> / 100
               else - (of_int \<lfloor>- x * 100 + 1 / 2\<rfloor> / 100))"

definition decimal_10_2_max :: rat where
  "decimal_10_2_max = 9999999999 / 100"

definition store_decimal :: "bool \<Rightarrow> rat \<Rightarrow> rat option" where
  "store_decimal strict x =
     (let v = round2 x in
      if decimal_10_2_max < v then (if strict then None else Some decimal_10_2_max)
      else if v < - decimal_10_2_max then (if strict then None else Some (- decimal_10_2_max))
      else Some v)"

text \<open>A value stored into an \<open>INT UNSIGNED\<close> column must be at most \<open>4294967295\<close>.\<close>

definition store_uint32 :: "bool \<Rightarrow> nat \<Rightarrow> uint32 option" where
  "store_uint32 strict n =
     (if n \<le> 4294967295 then Some (of_nat n)
      else if strict then None else Some 4294967295)"

section \<open>User repository (the two lookups the services call)\<close>

text \<open>
  \<open>GetUserByUuid\<close> selects every column but \<open>uuid\<close>, so the returned struct has an
  empty UUID. No row is the error "user does not exist".
\<close>

definition GetUserByUuid :: "database \<Rightarrow> string \<Rightarrow> User result" where
  "GetUserByUuid db uuid =
     (let db1 = exec (SELECT_user_by_uuid uuid) db in
      case find (\<lambda>u. u_UUID u = uuid) (users db) of
        None \<Rightarrow> (Inl UserNotExist, db1)
      | Some u \<Rightarrow> (Inr \<lparr>u_ID = u_ID u, u_UUID = [], u_Username = u_Username u\<rparr>, db1))"

text \<open>
  \<open>GetUserById\<close> returns a pointer; its caller tests it for \<open>nil\<close>, so the result
  is an option here, although this function never returns \<open>nil\<close> without an error.
\<close>

definition GetUserById :: "database \<Rightarrow> uint64 \<Rightarrow> User option result" where
  "GetUserById db uid =
     (let db1 = exec (SELECT_user_by_id uid) db in
      case find (\<lambda>u. u_ID u = uid) (users db) of
        None \<Rightarrow> (Inl UserIDNotExist, db1)
      | Some u \<Rightarrow> (Inr (Some u), db1))"

section \<open>Account repository\<close>

text \<open>
  \<open>INSERT INTO user_account (user_uuid) VALUES (?)\<close>. A second row for the same
  \<open>user_uuid\<close> is MySQL error 1062. The transaction argument of the source only
  chooses the connection the statement runs on.

  Modelled from the spec: the column defaults of \<open>user_account\<close>, whose table
  definition is not among the sources: \<open>balance\<close>, \<open>total_recharge\<close> and
  \<open>total_consume\<close> start at zero.
\<close>

definition repo_CreateAccount :: "database \<Rightarrow> string \<Rightarrow> unit result" where
  "repo_CreateAccount db userUUID =
     (let db1 = exec (INSERT_user_account userUUID) db in
      case user_account db userUUID of
        Some _ \<Rightarrow> (Inl AccountUUIDDuplicate, db1)
      | None \<Rightarrow>
          (Inr (),
           db1\<lparr>user_account := (user_account db)(userUUID \<mapsto>
                   \<lparr>acc_ID = user_account_seq db, acc_UserUUID = userUUID,
                    Balance = 0, TotalRecharge = 0, TotalConsume = 0\<rparr>),
               user_account_seq := user_account_seq db + 1\<rparr>))"

text \<open>
  \<open>UPDATE user_account SET ... WHERE user_uuid = ?\<close>, where \<open>f\<close> computes the new row
  or fails. The result is \<open>None\<close> when the statement fails, otherwise the number of
  affected rows. \<open>user_uuid\<close> is unique, so at most one row matches; the connection is
  opened without \<open>clientFoundRows\<close>, so a matched row counts only if the update changed
  it.
\<close>

definition update_user_account ::
  "(UserAccount \<Rightarrow> UserAccount option) \<Rightarrow> string \<Rightarrow> database \<Rightarrow> nat option \<times> database"
  where
  "update_user_account f userUUID db =
     (case user_account db userUUID of
        None \<Rightarrow> (Some 0, db)
      | Some a \<Rightarrow>
          (case f a of
             None \<Rightarrow> (None, db)
           | Some a' \<Rightarrow>
               (Some (if a' = a then 0 else 1),
                db\<lparr>user_account := (user_account db)(userUUID \<mapsto> a')\<rparr>)))"

text \<open>\<open>SET balance = balance + ?, total_recharge = total_recharge + ?\<close>, each column stored on its own.\<close>

definition set_recharge :: "bool \<Rightarrow> decimal \<Rightarrow> UserAccount \<Rightarrow> UserAccount option" where
  "set_recharge strict amount a =
     (case store_decimal strict (Balance a + amount) of
        None \<Rightarrow> None
      | Some b \<Rightarrow>
          (case store_decimal strict (TotalRecharge a + amount) of
             None \<Rightarrow> None
           | Some t \<Rightarrow> Some (a\<lparr>Balance := b, TotalRecharge := t\<rparr>)))"

text \<open>\<open>SET balance = balance - ?, total_consume = total_consume + ?\<close>, each column stored on its own.\<close>

definition set_deduct :: "bool \<Rightarrow> decimal \<Rightarrow> UserAccount \<Rightarrow> UserAccount option" where
  "set_deduct strict amount a =
     (case store_decimal strict (Balance a - amount) of
        None \<Rightarrow> None
      | Some b \<Rightarrow>
          (case store_decimal strict (TotalConsume a + amount) of
             None \<Rightarrow> None
           | Some t \<Rightarrow> Some (a\<lparr>Balance := b, TotalConsume := t\<rparr>)))"

text \<open>
  \<open>UPDATE user_account SET balance = balance + ?, total_recharge = total_recharge + ?
  WHERE user_uuid = ?\<close>, the error of \<open>ExecContext\<close>, then the check of \<open>RowsAffected\<close>.
\<close>

definition RechargeBalance :: "database \<Rightarrow> string \<Rightarrow> decimal \<Rightarrow> unit result" where
  "RechargeBalance db userUUID amount =
     (if amount \<le> 0 then (Inl RechargeAmountNotPositive, db)
      else
        let (res, db1) =
              update_user_account (set_recharge (sql_strict db) amount) userUUID
                (exec (UPDATE_recharge amount amount userUUID) db) in
        case res of
          None \<Rightarrow> (Inl (Wrapped W_ExecRecharge MySQLOutOfRange), db1)
        | Some rowsAffected \<Rightarrow>
            if rowsAffected = 0 then (Inl AccountNotExistOrNotUpdated, db1)
            else (Inr (), db1))"

text \<open>
  \<open>SELECT balance FROM user_account WHERE user_uuid = ?\<close>, the comparison in Go, then
  \<open>UPDATE user_account SET balance = balance - ?, total_consume = total_consume + ?
  WHERE user_uuid = ?\<close>, the error of \<open>ExecContext\<close> and the check of \<open>RowsAffected\<close>.
\<close>

definition DeductBalance :: "database \<Rightarrow> string \<Rightarrow> decimal \<Rightarrow> unit result" where
  "DeductBalance db userUUID amount =
     (if amount \<le> 0 then (Inl ConsumeAmountNotPositive, db)
      else
        let db1 = exec (SELECT_balance userUUID) db in
        case user_account db userUUID of
          None \<Rightarrow> (Inl AccountNotExist, db1)
        | Some row \<Rightarrow>
            let balance = Balance row in
            if balance < amount then (Inl (BalanceInsufficient balance amount), db1)
            else
              let (res, db2) =
                    update_user_account (set_deduct (sql_strict db) amount) userUUID
                      (exec (UPDATE_deduct amount amount userUUID) db1) in
              case res of
                None \<Rightarrow> (Inl (Wrapped W_ExecDeduct MySQLOutOfRange), db2)
              | Some rowsAffected \<Rightarrow>
                  if rowsAffected = 0 then (Inl DeductStateAbnormal, db2)
                  else (Inr (), db2))"

text \<open>No row is \<open>nil, nil\<close>: \<open>Inr None\<close>.\<close>

definition repo_GetAccountByUserUUID :: "database \<Rightarrow> string \<Rightarrow> UserAccount option result" where
  "repo_GetAccountByUserUUID db userUUID =
     (Inr (user_account db userUUID), exec (SELECT_user_account userUUID) db)"

section \<open>Account service\<close>

definition toAccountResponse :: "UserAccount \<Rightarrow> AccountResponse" where
  "toAccountResponse account =
     \<lparr>rsp_UserUUID = acc_UserUUID account, rsp_Balance = Balance account,
      rsp_TotalRecharge = TotalRecharge account, rsp_TotalConsume = TotalConsume account\<rparr>"

definition CreateAccount :: "database \<Rightarrow> string \<Rightarrow> unit result" where
  "CreateAccount db userUUID =
     (if userUUID = [] then (Inl UserUUIDEmpty, db)
      else case repo_CreateAccount db userUUID of
             (Inl e, db1) \<Rightarrow> (Inl (Wrapped W_CreateAccount e), db1)
           | (Inr _, db1) \<Rightarrow> (Inr (), db1))"

text \<open>Steps 4 and 5 of both \<open>Recharge\<close> and \<open>Deduct\<close>: read the account back.\<close>

definition readBack :: "database \<Rightarrow> string \<Rightarrow> AccountResponse result" where
  "readBack db userUUID =
     (case repo_GetAccountByUserUUID db userUUID of
        (Inl e, db1) \<Rightarrow> (Inl (Wrapped W_ReadBack e), db1)
      | (Inr None, db1) \<Rightarrow> (Inl AccountInfoNotExist, db1)
      | (Inr (Some account), db1) \<Rightarrow> (Inr (toAccountResponse account), db1))"

definition Recharge :: "database \<Rightarrow> RechargeRequest \<Rightarrow> AccountResponse result" where
  "Recharge db req =
     (if rc_UserUUID req = [] then (Inl UserUUIDEmpty, db)
      else if rc_Amount req \<le> 0 then (Inl RechargeAmountNotPositive, db)
      else case GetUserByUuid db (rc_UserUUID req) of
             (Inl e, db1) \<Rightarrow> (Inl (Wrapped W_UserLookup e), db1)
           | (Inr _, db1) \<Rightarrow>
               (case RechargeBalance db1 (rc_UserUUID req) (rc_Amount req) of
                  (Inl e, db2) \<Rightarrow> (Inl (Wrapped W_Recharge e), db2)
                | (Inr _, db2) \<Rightarrow> readBack db2 (rc_UserUUID req)))"

definition Deduct :: "database \<Rightarrow> DeductRequest \<Rightarrow> AccountResponse result" where
  "Deduct db req =
     (if dd_UserUUID req = [] then (Inl UserUUIDEmpty, db)
      else if dd_Amount req \<le> 0 then (Inl DeductAmountNotPositive, db)
      else case GetUserByUuid db (dd_UserUUID req) of
             (Inl e, db1) \<Rightarrow> (Inl (Wrapped W_UserLookup e), db1)
           | (Inr _, db1) \<Rightarrow>
               (case DeductBalance db1 (dd_UserUUID req) (dd_Amount req) of
                  (Inl e, db2) \<Rightarrow> (Inl (Wrapped W_Deduct e), db2)
                | (Inr _, db2) \<Rightarrow> readBack db2 (dd_UserUUID req)))"

text \<open>
  A run of the ledger: any sequence of \<open>Recharge\<close> and \<open>Deduct\<close> requests, for any
  identities, each applied to the state the previous one left. A request that fails
  leaves the state the service returned with the error.
\<close>

datatype ledger_op = DoRecharge RechargeRequest | DoDeduct DeductRequest

fun ledger_step :: "database \<Rightarrow> ledger_op \<Rightarrow> database" where
  "ledger_step db (DoRecharge req) = snd (Recharge db req)"
| "ledger_step db (DoDeduct req) = snd (Deduct db req)"

fun ledger_run :: "database \<Rightarrow> ledger_op list \<Rightarrow> database" where
  "ledger_run db [] = db"
| "ledger_run db (x # xs) = ledger_run (ledger_step db x) xs"

section \<open>Resource repository\<close>

text \<open>
  Three functions the resource code calls belong to libraries, not to this repository:
  \<open>strings.TrimSpace\<close>, \<open>time.Time.Format\<close> with the layout
  \<open>2006-01-02 15:04:05\<close>, and the SQL operator \<open>LIKE\<close> under the collation of the
  table. They are parameters of the model, so every theorem below holds for whatever
  these functions compute.
\<close>

record lib =
  TrimSpace :: "string \<Rightarrow> string"
  Format :: "time \<Rightarrow> string"
  LIKE :: "string \<Rightarrow> string \<Rightarrow> bool"

definition NullString :: "string option \<Rightarrow> string" where
  "NullString v = (case v of None \<Rightarrow> [] | Some s \<Rightarrow> s)"

text \<open>\<open>rows.Scan\<close> into a \<open>model.Resource\<close>, \<open>NULL\<close> becoming the empty string.\<close>

definition scanRow :: "resources_row \<Rightarrow> Resource" where
  "scanRow r =
     \<lparr>res_ID = row_id r, UserID = row_user_id r, Title = row_title r,
      TextContent = NullString (row_text_content r),
      CodeContent = NullString (row_code_content r),
      Author = row_author r, PublishTime = row_publish_time r,
      LikeCount = ucast (row_like_count r), ViewCount = ucast (row_view_count r),
      CommentCount = ucast (row_comment_count r)\<rparr>"

text \<open>
  \<open>INSERT INTO resources (user_id, title, text_content, code_content, author,
  publish_time, like_count, view_count, comment_count) VALUES (...)\<close>; the id is the
  auto-increment value and \<open>updated_at\<close> gets what the table defines for an insert. The
  three counters go from \<open>uint64\<close> into \<open>INT UNSIGNED\<close> columns; error 1264 is none of
  the numbers the function translates, so it is returned wrapped. The MySQL errors
  1062, 1048 and 1452 that the function translates come from constraints of the table
  definition, which is not among the sources; they do not occur in the model.
\<close>

definition repo_CreateResource :: "database \<Rightarrow> Resource \<Rightarrow> unit result" where
  "repo_CreateResource db resource =
     (let db1 = exec (INSERT_resources resource) db;
          strict = sql_strict db in
      case store_uint32 strict (unat (LikeCount resource)) of
        None \<Rightarrow> (Inl (Wrapped W_InsertResource MySQLOutOfRange), db1)
      | Some likes \<Rightarrow>
      case store_uint32 strict (unat (ViewCount resource)) of
        None \<Rightarrow> (Inl (Wrapped W_InsertResource MySQLOutOfRange), db1)
      | Some views \<Rightarrow>
      case store_uint32 strict (unat (CommentCount resource)) of
        None \<Rightarrow> (Inl (Wrapped W_InsertResource MySQLOutOfRange), db1)
      | Some comments \<Rightarrow>
          (Inr (),
           db1\<lparr>resources := resources db @
                   [\<lparr>row_id = resources_seq db, row_user_id = UserID resource,
                     row_title = Title resource,
                     row_text_content = Some (TextContent resource),
                     row_code_content = Some (CodeContent resource),
                     row_author = Author resource, row_publish_time = PublishTime resource,
                     row_like_count = likes, row_view_count = views,
                     row_comment_count = comments\<rparr>],
               resources_seq := resources_seq db + 1\<rparr>))"

text \<open>
  The \<open>WHERE\<close> clause of the list and count queries: none for an empty keyword,
  otherwise \<open>title LIKE ? OR IFNULL(text_content, '') LIKE ? OR
  IFNULL(code_content, '') LIKE ?\<close> with the parameter \<open>%keyword%\<close>.
\<close>

definition keyword_filter :: "lib \<Rightarrow> string \<Rightarrow> resources_row \<Rightarrow> bool" where
  "keyword_filter L keyword r =
     (if keyword \<noteq> [] then
        (let likeKeyword = ''%'' @ keyword @ ''%'' in
           LIKE L (row_title r) likeKeyword
         \<or> LIKE L (NullString (row_text_content r)) likeKeyword
         \<or> LIKE L (NullString (row_code_content r)) likeKeyword)
      else True)"

text \<open>\<open>ORDER BY publish_time DESC\<close>; rows of equal time in one of the orders MySQL may give.\<close>

definition order_by_publish_time_desc :: "resources_row list \<Rightarrow> resources_row list" where
  "order_by_publish_time_desc rows = rev (sort_key row_publish_time rows)"

text \<open>
  \<open>SELECT ... FROM resources [WHERE ...] ORDER BY publish_time DESC LIMIT ?, ?\<close>.
  MySQL refuses a negative offset or row count.
\<close>

definition repo_GetResourceList ::
  "lib \<Rightarrow> database \<Rightarrow> go_int \<Rightarrow> go_int \<Rightarrow> string \<Rightarrow> Resource list result" where
  "repo_GetResourceList L db offset limit keyword =
     (let db1 = exec (SELECT_resources_page keyword (sint offset) (sint limit)) db in
      if sint offset < 0 \<or> sint limit < 0 then (Inl MySQLError, db1)
      else
        (Inr (map scanRow
                (take (nat (sint limit))
                   (drop (nat (sint offset))
                      (order_by_publish_time_desc
                         (filter (keyword_filter L keyword) (resources db)))))),
         db1))"

text \<open>\<open>SELECT COUNT(*) FROM resources [WHERE ...]\<close>; a row count, read into an \<open>int64\<close>.\<close>

definition CountResources :: "lib \<Rightarrow> database \<Rightarrow> string \<Rightarrow> nat result" where
  "CountResources L db keyword =
     (Inr (length (filter (keyword_filter L keyword) (resources db))),
      exec (SELECT_count_resources keyword) db)"

definition row_by_id :: "resources_row list \<Rightarrow> uint64 \<Rightarrow> resources_row option" where
  "row_by_id rows i = find (\<lambda>r. row_id r = i) rows"

text \<open>\<open>SELECT ... FROM resources WHERE id = ? LIMIT 1\<close>; \<open>sql.ErrNoRows\<close> is \<open>nil, nil\<close>.\<close>

definition repo_GetResourceByID :: "database \<Rightarrow> uint64 \<Rightarrow> Resource option result" where
  "repo_GetResourceByID db i =
     (let db1 = exec (SELECT_resource_by_id i) db in
      case row_by_id (resources db) i of
        None \<Rightarrow> (Inr None, db1)
      | Some r \<Rightarrow> (Inr (Some (scanRow r)), db1))"

text \<open>
  \<open>UPDATE resources SET <counter> = <counter> + 1, updated_at = CURRENT_TIMESTAMP
  WHERE id = ?\<close>, where \<open>f\<close> computes the new row or fails. \<open>id\<close> is the primary key, so
  at most one row matches. The result says whether the statement succeeded; the Go code
  discards the rest (\<open>_, err := ...\<close>), so the number of affected rows is never read.
\<close>

definition update_resource ::
  "(resources_row \<Rightarrow> resources_row option) \<Rightarrow> uint64 \<Rightarrow> database \<Rightarrow> bool \<times> database" where
  "update_resource f i db =
     (case row_by_id (resources db) i of
        None \<Rightarrow> (True, db)
      | Some r \<Rightarrow>
          (case f r of
             None \<Rightarrow> (False, db)
           | Some r' \<Rightarrow>
               (True,
                db\<lparr>resources := map (\<lambda>x. if row_id x = i then r' else x) (resources db),
                   resources_updated_at := (resources_updated_at db)(i \<mapsto> server_time db)\<rparr>)))"

definition repo_IncrViewCount :: "database \<Rightarrow> uint64 \<Rightarrow> unit result" where
  "repo_IncrViewCount db i =
     (let (ok, db1) =
            update_resource
              (\<lambda>r. map_option (\<lambda>c. r\<lparr>row_view_count := c\<rparr>)
                     (store_uint32 (sql_strict db) (unat (row_view_count r) + 1)))
              i (exec (UPDATE_view_count i) db) in
      if ok then (Inr (), db1) else (Inl ViewCountMySQLError, db1))"

definition repo_IncrLikeCount :: "database \<Rightarrow> uint64 \<Rightarrow> unit result" where
  "repo_IncrLikeCount db i =
     (let (ok, db1) =
            update_resource
              (\<lambda>r. map_option (\<lambda>c. r\<lparr>row_like_count := c\<rparr>)
                     (store_uint32 (sql_strict db) (unat (row_like_count r) + 1)))
              i (exec (UPDATE_like_count i) db) in
      if ok then (Inr (), db1) else (Inl LikeCountMySQLError, db1))"

definition IncrCommentCount :: "database \<Rightarrow> uint64 \<Rightarrow> unit result" where
  "IncrCommentCount db i =
     (let (ok, db1) =
            update_resource
              (\<lambda>r. map_option (\<lambda>c. r\<lparr>row_comment_count := c\<rparr>)
                     (store_uint32 (sql_strict db) (unat (row_comment_count r) + 1)))
              i (exec (UPDATE_comment_count i) db) in
      if ok then (Inr (), db1) else (Inl CommentCountMySQLError, db1))"

section \<open>Resource service\<close>

definition CreateResource ::
  "lib \<Rightarrow> time \<Rightarrow> database \<Rightarrow> uint64 \<Rightarrow> string \<Rightarrow> string \<Rightarrow> string \<Rightarrow> unit result" where
  "CreateResource L now db userID title0 text code =
     (if userID = 0 then (Inl UserIDZero, db)
      else
        let title = TrimSpace L title0 in
        if title = [] then (Inl TitleEmpty, db)
        else if length title > 100 then (Inl (TitleTooLong (length title)), db)
        else case GetUserById db userID of
               (Inl e, db1) \<Rightarrow> (Inl (Wrapped W_QueryUser e), db1)
             | (Inr None, db1) \<Rightarrow> (Inl (UserNil userID), db1)
             | (Inr (Some user), db1) \<Rightarrow>
                 if TrimSpace L (u_Username user) = [] then (Inl (UsernameEmpty userID), db1)
                 else
                   let resource =
                         \<lparr>res_ID = 0, UserID = userID, Title = title,
                          TextContent = TrimSpace L text, CodeContent = code,
                          Author = u_Username user, PublishTime = now,
                          LikeCount = 0, ViewCount = 0, CommentCount = 0\<rparr> in
                   (case repo_CreateResource db1 resource of
                      (Inl e, db2) \<Rightarrow> (Inl (Wrapped W_CreateResource e), db2)
                    | (Inr _, db2) \<Rightarrow> (Inr (), db2)))"

definition convertModelToDTO :: "lib \<Rightarrow> Resource \<Rightarrow> ResourceItem" where
  "convertModelToDTO L res =
     (let publishTime = Format L (PublishTime res) in
      \<lparr>it_ID = res_ID res, it_Title = Title res, it_TextContent = TextContent res,
       it_CodeContent = CodeContent res, it_Author = Author res,
       it_PublishTime = publishTime, it_UserID = UserID res,
       it_LikeCount = LikeCount res, it_ViewCount = ViewCount res,
       it_CommentCount = CommentCount res\<rparr>)"

text \<open>
  \<open>page\<close>, \<open>size\<close> (here \<open>pageSize\<close>) and \<open>offset\<close> are Go \<open>int\<close>s: the
  comparisons are signed and \<open>(page - 1) * size\<close> wraps around at 64 bits.
\<close>

definition GetResourceList ::
  "lib \<Rightarrow> database \<Rightarrow> go_int \<Rightarrow> go_int \<Rightarrow> string \<Rightarrow> (ResourceItem list \<times> nat) result" where
  "GetResourceList L db page pageSize keyword =
     (if sint page < 1 then (Inl (PageInvalid (sint page)), db)
      else if sint pageSize < 1 \<or> sint pageSize > 50 then (Inl (SizeInvalid (sint pageSize)), db)
      else
        let offset = (page - 1) * pageSize in
        case CountResources L db keyword of
          (Inl e, db1) \<Rightarrow> (Inl (Wrapped W_CountResources e), db1)
        | (Inr total_count, db1) \<Rightarrow>
            if total_count = 0 then (Inr ([], 0), db1)
            else (case repo_GetResourceList L db1 offset pageSize keyword of
                    (Inl e, db2) \<Rightarrow> (Inl (Wrapped W_ResourceList e), db2)
                  | (Inr resourceModels, db2) \<Rightarrow>
                      (Inr (map (convertModelToDTO L) resourceModels, total_count), db2)))"

definition GetResourceByID :: "database \<Rightarrow> uint64 \<Rightarrow> Resource option result" where
  "GetResourceByID db i =
     (if i \<le> 0 then (Inl (ResourceIDNotPositive i), db)
      else case repo_GetResourceByID db i of
             (Inl e, db1) \<Rightarrow> (Inl (Wrapped W_ResourceByID e), db1)
           | (Inr resource, db1) \<Rightarrow> (Inr resource, db1))"

definition IncrViewCount :: "database \<Rightarrow> uint64 \<Rightarrow> unit result" where
  "IncrViewCount db i =
     (case repo_IncrViewCount db i of
        (Inl e, db1) \<Rightarrow> (Inl (Wrapped W_ViewCount e), db1)
      | (Inr _, db1) \<Rightarrow> (Inr (), db1))"

definition IncrLikeCount :: "database \<Rightarrow> uint64 \<Rightarrow> unit result" where
  "IncrLikeCount db i =
     (if i \<le> 0 then (Inl (ResourceIDInvalid i), db)
      else case repo_IncrLikeCount db i of
             (Inl e, db1) \<Rightarrow> (Inl (Wrapped W_LikeCount e), db1)
           | (Inr _, db1) \<Rightarrow> (Inr (), db1))"

text \<open>
  The insert of a comment record is commented out in the source; what remains is the
  validation and the update of the counter.
\<close>

definition CreateComment :: "lib \<Rightarrow> database \<Rightarrow> uint64 \<Rightarrow> string \<Rightarrow> unit result" where
  "CreateComment L db i content0 =
     (if i \<le> 0 then (Inl (ResourceIDInvalid i), db)
      else
        let content = TrimSpace L content0 in
        if content = [] then (Inl CommentEmpty, db)
        else case IncrCommentCount db i of
               (Inl e, db1) \<Rightarrow> (Inl (Wrapped W_CommentCount e), db1)
             | (Inr _, db1) \<Rightarrow> (Inr (), db1))"

section \<open>Ledger invariant and example states\<close>

text \<open>
  An amount with at most two decimal places, the scale of the account columns.
\<close>

definition two_places :: "decimal \<Rightarrow> bool" where
  "two_places x \<longleftrightarrow> x * 100 \<in> \<int>"




text \<open>A trimming function on ASCII white space, to run the model on examples.\<close>

definition ascii_space :: "char \<Rightarrow> bool" where
  "ascii_space c \<longleftrightarrow> c = CHR '' '' \<or> c = CHR 0x09 \<or> c = CHR 0x0A \<or> c = CHR 0x0B
                     \<or> c = CHR 0x0C \<or> c = CHR 0x0D"

definition trim_ascii :: "string \<Rightarrow> string" where
  "trim_ascii s = rev (dropWhile ascii_space (rev (dropWhile ascii_space s)))"

definition demo_lib :: lib where
  "demo_lib = \<lparr>TrimSpace = trim_ascii, Format = (\<lambda>t. ''2026-01-07 15:30:00''),
               LIKE = (\<lambda>v p. False)\<rparr>"

text \<open>One registered user, no account, no resource.\<close>

definition db_init :: database where
  "db_init = \<lparr>users = [\<lparr>u_ID = 1, u_UUID = ''u1'', u_Username = ''alice''\<rparr>],
              user_account = Map.empty, user_account_seq = 1,
              resources = [], resources_seq = 1,
              resources_updated_at = Map.empty, server_time = 2000, sql_strict = True,
              queries = []\<rparr>"

text \<open>The state after \<open>CreateAccount\<close> for \<open>u1\<close>.\<close>

definition db_created :: database where
  "db_created = db_init\<lparr>
     user_account := [''u1'' \<mapsto> \<lparr>acc_ID = 1, acc_UserUUID = ''u1'', Balance = 0,
                                  TotalRecharge = 0, TotalConsume = 0\<rparr>],
     user_account_seq := 2,
     queries := [INSERT_user_account ''u1'']\<rparr>"

text \<open>Recharge 100.00, then deduct 30.00.\<close>

definition demo_ops :: "ledger_op list" where
  "demo_ops = [DoRecharge \<lparr>rc_UserUUID = ''u1'', rc_Amount = 100\<rparr>,
               DoDeduct \<lparr>dd_UserUUID = ''u1'', dd_Amount = 30\<rparr>]"

text \<open>Recharge 1.00, then deduct 0.005.\<close>

definition db_recharged :: database where
  "db_recharged = ledger_run db_created [DoRecharge \<lparr>rc_UserUUID = ''u1'', rc_Amount = 1\<rparr>]"


definition row_one :: resources_row where
  "row_one = \<lparr>row_id = 1, row_user_id = 1, row_title = ''Go'',
              row_text_content = Some ''text'', row_code_content = None,
              row_author = ''alice'', row_publish_time = 1000,
              row_like_count = 5, row_view_count = 20, row_comment_count = 2\<rparr>"

text \<open>The same user and one published resource.\<close>

definition db_one :: database where
  "db_one = db_init\<lparr>resources := [row_one], resources_seq := 2\<rparr>"

section \<open>Properties of the account ledger\<close>

lemma exec_fields [simp]:
  "users (exec q db) = users db"
  "user_account (exec q db) = user_account db"
  "user_account_seq (exec q db) = user_account_seq db"
  "resources (exec q db) = resources db"
  "resources_seq (exec q db) = resources_seq db"
  "resources_updated_at (exec q db) = resources_updated_at db"
  "server_time (exec q db) = server_time db"
  "sql_strict (exec q db) = sql_strict db"
  "queries (exec q db) = queries db @ [q]"
  by (simp_all add: exec_def)

lemma floor_numeral_div [simp]:
  "\<lfloor>(numeral a :: rat) / numeral b\<rfloor> = numeral a div numeral b"
  using floor_divide_of_int_eq [of "numeral a" "numeral b", where ?'a = rat] by simp

lemma round2_nonneg: "0 \<le> x \<Longrightarrow> 0 \<le> round2 x"
  by (simp add: round2_def)


lemma store_decimal_nonneg:
  "0 \<le> x \<Longrightarrow> store_decimal strict x = Some v \<Longrightarrow> 0 \<le> v"
  using round2_nonneg [of x]
  by (auto simp: store_decimal_def Let_def decimal_10_2_max_def split: if_splits)




lemma GetUserByUuid_frame [simp]:
  "user_account (snd (GetUserByUuid db u)) = user_account db"
  "sql_strict (snd (GetUserByUuid db u)) = sql_strict db"
  by (simp_all add: GetUserByUuid_def Let_def split: option.splits)

lemma readBack_frame [simp]:
  "user_account (snd (readBack db u)) = user_account db"
  by (simp add: readBack_def repo_GetAccountByUserUUID_def split: option.splits)

lemma GetUserByUuid_cases:
  "GetUserByUuid db u = (Inl UserNotExist, exec (SELECT_user_by_uuid u) db)
   \<or> (\<exists>usr. GetUserByUuid db u = (Inr usr, exec (SELECT_user_by_uuid u) db))"
  by (simp add: GetUserByUuid_def Let_def split: option.splits)

text \<open>What a store function may do to the row of \<open>u\<close>: leave it, or replace it by \<open>f\<close> of it.\<close>

lemma update_user_account_row:
  assumes "user_account db u = Some a"
  shows "user_account (snd (update_user_account f v db)) u = Some a
       \<or> (v = u \<and> (\<exists>a'. f a = Some a' \<and> user_account (snd (update_user_account f v db)) u = Some a'))"
  using assms by (auto simp: update_user_account_def split: option.splits)

lemma RechargeBalance_row:
  assumes "user_account db u = Some a"
  shows "user_account (snd (RechargeBalance db v amount)) u = Some a
       \<or> (v = u \<and> 0 < amount
          \<and> (\<exists>a'. set_recharge (sql_strict db) amount a = Some a'
                \<and> user_account (snd (RechargeBalance db v amount)) u = Some a'))"
proof (cases "amount \<le> 0")
  case True
  then show ?thesis using assms by (simp add: RechargeBalance_def)
next
  case False
  let ?d = "exec (UPDATE_recharge amount amount v) db"
  have "snd (RechargeBalance db v amount)
      = snd (update_user_account (set_recharge (sql_strict db) amount) v ?d)"
    using False by (simp add: RechargeBalance_def split: prod.splits option.splits)
  then show ?thesis
    using update_user_account_row [of ?d u a "set_recharge (sql_strict db) amount" v] assms False
    by auto
qed

lemma DeductBalance_row:
  assumes "user_account db u = Some a"
  shows "user_account (snd (DeductBalance db v amount)) u = Some a
       \<or> (v = u \<and> 0 < amount \<and> amount \<le> Balance a
          \<and> (\<exists>a'. set_deduct (sql_strict db) amount a = Some a'
                \<and> user_account (snd (DeductBalance db v amount)) u = Some a'))"
proof (cases "amount \<le> 0 \<or> user_account db v = None \<or> Balance (the (user_account db v)) < amount")
  case True
  then show ?thesis using assms by (auto simp: DeductBalance_def Let_def split: option.splits)
next
  case False
  let ?d = "exec (UPDATE_deduct amount amount v) (exec (SELECT_balance v) db)"
  have "snd (DeductBalance db v amount)
      = snd (update_user_account (set_deduct (sql_strict db) amount) v ?d)"
    using False by (auto simp: DeductBalance_def Let_def split: prod.splits option.splits)
  then show ?thesis
    using update_user_account_row [of ?d u a "set_deduct (sql_strict db) amount" v] assms False
    by auto
qed

lemma Recharge_row:
  assumes "user_account db u = Some a"
  shows "user_account (snd (Recharge db req)) u = Some a
       \<or> (rc_UserUUID req = u \<and> 0 < rc_Amount req
          \<and> (\<exists>a'. set_recharge (sql_strict db) (rc_Amount req) a = Some a'
                \<and> user_account (snd (Recharge db req)) u = Some a'))"
proof -
  obtain r1 db1 where g: "GetUserByUuid db (rc_UserUUID req) = (r1, db1)"
    by (cases "GetUserByUuid db (rc_UserUUID req)")
  have a1: "user_account db1 = user_account db" "sql_strict db1 = sql_strict db"
    using GetUserByUuid_frame [of db "rc_UserUUID req"] g by simp_all
  obtain r2 db2 where rb: "RechargeBalance db1 (rc_UserUUID req) (rc_Amount req) = (r2, db2)"
    by (cases "RechargeBalance db1 (rc_UserUUID req) (rc_Amount req)")
  have "user_account (snd (Recharge db req)) = user_account db
      \<or> user_account (snd (Recharge db req)) = user_account db2"
    using g rb a1 by (simp add: Recharge_def split: sum.splits)
  then show ?thesis
    using RechargeBalance_row [of db1 u a "rc_UserUUID req" "rc_Amount req"] a1 assms rb
    by auto
qed

lemma Deduct_row:
  assumes "user_account db u = Some a"
  shows "user_account (snd (Deduct db req)) u = Some a
       \<or> (dd_UserUUID req = u \<and> 0 < dd_Amount req \<and> dd_Amount req \<le> Balance a
          \<and> (\<exists>a'. set_deduct (sql_strict db) (dd_Amount req) a = Some a'
                \<and> user_account (snd (Deduct db req)) u = Some a'))"
proof -
  obtain r1 db1 where g: "GetUserByUuid db (dd_UserUUID req) = (r1, db1)"
    by (cases "GetUserByUuid db (dd_UserUUID req)")
  have a1: "user_account db1 = user_account db" "sql_strict db1 = sql_strict db"
    using GetUserByUuid_frame [of db "dd_UserUUID req"] g by simp_all
  obtain r2 db2 where rb: "DeductBalance db1 (dd_UserUUID req) (dd_Amount req) = (r2, db2)"
    by (cases "DeductBalance db1 (dd_UserUUID req) (dd_Amount req)")
  have "user_account (snd (Deduct db req)) = user_account db
      \<or> user_account (snd (Deduct db req)) = user_account db2"
    using g rb a1 by (simp add: Deduct_def split: sum.splits)
  then show ?thesis
    using DeductBalance_row [of db1 u a "dd_UserUUID req" "dd_Amount req"] a1 assms rb
    by auto
qed

lemma set_recharge_nonneg:
  "set_recharge s amount a = Some a' \<Longrightarrow> 0 < amount \<Longrightarrow> 0 \<le> Balance a \<Longrightarrow> 0 \<le> Balance a'"
  by (auto simp: set_recharge_def split: option.splits
      dest: store_decimal_nonneg [rotated])

lemma set_deduct_nonneg:
  "set_deduct s amount a = Some a' \<Longrightarrow> amount \<le> Balance a \<Longrightarrow> 0 \<le> Balance a'"
  by (auto simp: set_deduct_def split: option.splits
      dest: store_decimal_nonneg [rotated])

lemma ledger_step_nonneg:
  assumes "user_account db u = Some a" and "0 \<le> Balance a"
  shows "\<exists>a'. user_account (ledger_step db x) u = Some a' \<and> 0 \<le> Balance a'"
proof (cases x)
  case (DoRecharge req)
  then show ?thesis
    using Recharge_row [OF assms(1), of req] assms(2) set_recharge_nonneg by auto
next
  case (DoDeduct req)
  then show ?thesis
    using Deduct_row [OF assms(1), of req] assms(2) set_deduct_nonneg by auto
qed

lemma ledger_run_nonneg:
  "user_account db u = Some a \<Longrightarrow> 0 \<le> Balance a \<Longrightarrow>
   \<exists>a'. user_account (ledger_run db xs) u = Some a' \<and> 0 \<le> Balance a'"
proof (induction xs arbitrary: db a)
  case Nil
  then show ?case by simp
next
  case (Cons x xs)
  from ledger_step_nonneg [OF Cons.prems, of x]
  obtain b where b: "user_account (ledger_step db x) u = Some b" "0 \<le> Balance b"
    by auto
  from Cons.IH [OF b] show ?case by simp
qed

lemma two_places_0 [simp]: "two_places 0"
  by (simp add: two_places_def)











lemma CreateAccount_row:
  assumes "CreateAccount db u = (Inr (), db0)"
  shows "\<exists>a. user_account db0 u = Some a \<and> Balance a = 0 \<and> TotalRecharge a = 0
             \<and> TotalConsume a = 0"
  using assms
  by (auto simp: CreateAccount_def repo_CreateAccount_def Let_def
      split: if_splits option.splits)

lemma db_created_eq: "CreateAccount db_init ''u1'' = (Inr (), db_created)"
  by (simp add: db_created_def CreateAccount_def repo_CreateAccount_def db_init_def exec_def)



lemmas ledger_eval =
  Recharge_def Deduct_def GetUserByUuid_def RechargeBalance_def DeductBalance_def
  update_user_account_def set_recharge_def set_deduct_def store_decimal_def round2_def
  decimal_10_2_max_def readBack_def repo_GetAccountByUserUUID_def toAccountResponse_def



text \<open>
  A recharge below half a cent changes neither column of an existing account, so no row
  counts as affected and the store reports "account does not exist or update failed".
\<close>

lemma subcent_recharge_not_counted:
  "fst (RechargeBalance db_recharged ''u1'' (1 / 1000)) = Inl AccountNotExistOrNotUpdated
   \<and> user_account (snd (RechargeBalance db_recharged ''u1'' (1 / 1000))) ''u1''
       = user_account db_recharged ''u1''"
  by (simp add: db_recharged_def db_created_def db_init_def ledger_eval)

lemma demo_run:
  "user_account (ledger_run db_created demo_ops) ''u1''
     = Some \<lparr>acc_ID = 1, acc_UserUUID = ''u1'', Balance = 70, TotalRecharge = 100,
             TotalConsume = 30\<rparr>"
  by (simp add: demo_ops_def db_created_def db_init_def ledger_eval)

lemma DeductBalance_insufficient:
  "user_account db u = Some a \<Longrightarrow> 0 \<le> Balance a \<Longrightarrow> Balance a < amount \<Longrightarrow>
   DeductBalance db u amount
     = (Inl (BalanceInsufficient (Balance a) amount), exec (SELECT_balance u) db)"
  by (simp add: DeductBalance_def)

lemma Deduct_insufficient:
  assumes "user_account db u = Some a" "0 \<le> Balance a" "u \<noteq> []" "Balance a < amount"
  shows "(fst (Deduct db \<lparr>dd_UserUUID = u, dd_Amount = amount\<rparr>)
            = Inl (Wrapped W_UserLookup UserNotExist)
          \<or> fst (Deduct db \<lparr>dd_UserUUID = u, dd_Amount = amount\<rparr>)
            = Inl (Wrapped W_Deduct (BalanceInsufficient (Balance a) amount)))
       \<and> user_account (snd (Deduct db \<lparr>dd_UserUUID = u, dd_Amount = amount\<rparr>)) = user_account db"
proof -
  have pos: "\<not> amount \<le> 0"
    using assms(2,4) by auto
  have "DeductBalance (exec (SELECT_user_by_uuid u) db) u amount
     = (Inl (BalanceInsufficient (Balance a) amount),
        exec (SELECT_balance u) (exec (SELECT_user_by_uuid u) db))"
    using DeductBalance_insufficient [of "exec (SELECT_user_by_uuid u) db" u a amount] assms
    by simp
  then show ?thesis
    using GetUserByUuid_cases [of db u] pos assms(3)
    by (auto simp: Deduct_def)
qed

text \<open>
  Claim C2. In every state a run of ledger requests reaches from a created account, the
  balance of the account is not negative, and a deduction of any amount above the
  balance fails in the store with the insufficient-balance error after the balance read
  alone and leaves the account row as it was; the service returns that error wrapped
  (or, for an identity that is no row of \<open>users\<close>, the error of the user lookup) and
  leaves the row as well. In any state at all, a deduction of more than the balance
  never succeeds and changes no account.
\<close>

theorem deduct_never_overdraws:
  assumes "CreateAccount db u = (Inr (), db0)"
  shows "\<exists>a. user_account (ledger_run db0 ops) u = Some a \<and> 0 \<le> Balance a
         \<and> (\<forall>amount. Balance a < amount \<longrightarrow>
              DeductBalance (ledger_run db0 ops) u amount
                = (Inl (BalanceInsufficient (Balance a) amount),
                   exec (SELECT_balance u) (ledger_run db0 ops))
            \<and> user_account (snd (DeductBalance (ledger_run db0 ops) u amount)) u = Some a
            \<and> (fst (Deduct (ledger_run db0 ops) \<lparr>dd_UserUUID = u, dd_Amount = amount\<rparr>)
                  = Inl (Wrapped W_UserLookup UserNotExist)
                \<or> fst (Deduct (ledger_run db0 ops) \<lparr>dd_UserUUID = u, dd_Amount = amount\<rparr>)
                  = Inl (Wrapped W_Deduct (BalanceInsufficient (Balance a) amount)))
            \<and> user_account
                (snd (Deduct (ledger_run db0 ops) \<lparr>dd_UserUUID = u, dd_Amount = amount\<rparr>)) u
                = Some a)
       \<and> (\<forall>d v b amount. user_account d v = Some b \<and> Balance b < amount \<longrightarrow>
            (\<exists>e. fst (DeductBalance d v amount) = Inl e)
          \<and> user_account (snd (DeductBalance d v amount)) = user_account d)"
proof -
  from CreateAccount_row [OF assms] obtain a0 where
    a0: "user_account db0 u = Some a0" "Balance a0 = 0"
    by auto
  from ledger_run_nonneg [OF a0(1), of ops] a0(2) obtain a where
    a: "user_account (ledger_run db0 ops) u = Some a" and nn: "0 \<le> Balance a"
    by auto
  have ne: "u \<noteq> []"
    using assms by (auto simp: CreateAccount_def)
  have "\<forall>amount. Balance a < amount \<longrightarrow>
              DeductBalance (ledger_run db0 ops) u amount
                = (Inl (BalanceInsufficient (Balance a) amount),
                   exec (SELECT_balance u) (ledger_run db0 ops))
            \<and> user_account (snd (DeductBalance (ledger_run db0 ops) u amount)) u = Some a
            \<and> (fst (Deduct (ledger_run db0 ops) \<lparr>dd_UserUUID = u, dd_Amount = amount\<rparr>)
                  = Inl (Wrapped W_UserLookup UserNotExist)
                \<or> fst (Deduct (ledger_run db0 ops) \<lparr>dd_UserUUID = u, dd_Amount = amount\<rparr>)
                  = Inl (Wrapped W_Deduct (BalanceInsufficient (Balance a) amount)))
            \<and> user_account
                (snd (Deduct (ledger_run db0 ops) \<lparr>dd_UserUUID = u, dd_Amount = amount\<rparr>)) u
                = Some a"
    using DeductBalance_insufficient [OF a(1) nn] Deduct_insufficient [OF a(1) nn ne] a(1)
    by simp
  moreover have "\<forall>d v b amount. user_account d v = Some b \<and> Balance b < amount \<longrightarrow>
            (\<exists>e. fst (DeductBalance d v amount) = Inl e)
          \<and> user_account (snd (DeductBalance d v amount)) = user_account d"
    by (simp add: DeductBalance_def)
  ultimately show ?thesis
    using a(1) nn by blast
qed

theorem deduct_never_overdraws_witness:
  "CreateAccount db_init ''u1'' = (Inr (), db_created)
   \<and> (\<exists>a. user_account (ledger_run db_created demo_ops) ''u1'' = Some a \<and> Balance a = 70
        \<and> (70 :: decimal) < 100
        \<and> DeductBalance (ledger_run db_created demo_ops) ''u1'' 100
            = (Inl (BalanceInsufficient 70 100),
               exec (SELECT_balance ''u1'') (ledger_run db_created demo_ops))
        \<and> user_account (snd (DeductBalance (ledger_run db_created demo_ops) ''u1'' 100)) ''u1''
            = Some a)"
proof -
  have h: "CreateAccount db_init ''u1'' = (Inr (), db_created)"
    by (rule db_created_eq)
  from deduct_never_overdraws [OF h, of demo_ops] demo_run h
  show ?thesis by auto
qed

text \<open>
  Claim C3. For every identity and every amount \<open>\<le> 0\<close>, the services \<open>Recharge\<close> and
  \<open>Deduct\<close> return a validation error (empty identity, or amount not positive) and the
  state they return is the state they were given: no table changed and no statement was
  issued. The two store functions reject such an amount in the same way.
\<close>

theorem nonpositive_amount_rejected:
  assumes "amount \<le> 0"
  shows "Recharge db \<lparr>rc_UserUUID = u, rc_Amount = amount\<rparr>
           = (Inl (if u = [] then UserUUIDEmpty else RechargeAmountNotPositive), db)
       \<and> Deduct db \<lparr>dd_UserUUID = u, dd_Amount = amount\<rparr>
           = (Inl (if u = [] then UserUUIDEmpty else DeductAmountNotPositive), db)
       \<and> RechargeBalance db u amount = (Inl RechargeAmountNotPositive, db)
       \<and> DeductBalance db u amount = (Inl ConsumeAmountNotPositive, db)"
  using assms by (simp add: Recharge_def Deduct_def RechargeBalance_def DeductBalance_def)

theorem nonpositive_amount_rejected_witness:
  "(-5 :: decimal) \<le> 0
   \<and> Recharge db_created \<lparr>rc_UserUUID = ''u1'', rc_Amount = -5\<rparr>
       = (Inl RechargeAmountNotPositive, db_created)
   \<and> Deduct db_created \<lparr>dd_UserUUID = ''u1'', dd_Amount = -5\<rparr>
       = (Inl DeductAmountNotPositive, db_created)"
proof -
  have h: "(-5 :: decimal) \<le> 0" by simp
  from nonpositive_amount_rejected [OF h, of db_created "''u1''"] h
  show ?thesis by simp
qed

text \<open>
  Claim C4. For an identity with no row in \<open>user_account\<close> and a positive amount (the
  amounts that pass the validation of claim C3), \<open>RechargeBalance\<close> issues its update,
  finds zero rows affected and returns the not-found error; \<open>DeductBalance\<close> issues the
  balance read, finds no row and returns the not-found error. Neither changes an
  account. The services return one of these errors wrapped, or the error that the user
  does not exist, and change no account either.
\<close>

theorem missing_account_not_found:
  assumes "user_account db u = None" and "0 < amount"
  shows "RechargeBalance db u amount
           = (Inl AccountNotExistOrNotUpdated, exec (UPDATE_recharge amount amount u) db)
       \<and> DeductBalance db u amount = (Inl AccountNotExist, exec (SELECT_balance u) db)
       \<and> user_account (snd (RechargeBalance db u amount)) = user_account db
       \<and> user_account (snd (DeductBalance db u amount)) = user_account db
       \<and> (u \<noteq> [] \<longrightarrow>
            (fst (Recharge db \<lparr>rc_UserUUID = u, rc_Amount = amount\<rparr>)
               = Inl (Wrapped W_UserLookup UserNotExist)
             \<or> fst (Recharge db \<lparr>rc_UserUUID = u, rc_Amount = amount\<rparr>)
               = Inl (Wrapped W_Recharge AccountNotExistOrNotUpdated))
          \<and> (fst (Deduct db \<lparr>dd_UserUUID = u, dd_Amount = amount\<rparr>)
               = Inl (Wrapped W_UserLookup UserNotExist)
             \<or> fst (Deduct db \<lparr>dd_UserUUID = u, dd_Amount = amount\<rparr>)
               = Inl (Wrapped W_Deduct AccountNotExist))
          \<and> user_account (snd (Recharge db \<lparr>rc_UserUUID = u, rc_Amount = amount\<rparr>))
              = user_account db
          \<and> user_account (snd (Deduct db \<lparr>dd_UserUUID = u, dd_Amount = amount\<rparr>))
              = user_account db)"
proof -
  have repo: "\<And>d. user_account d = user_account db \<Longrightarrow>
      RechargeBalance d u amount
           = (Inl AccountNotExistOrNotUpdated, exec (UPDATE_recharge amount amount u) d)
       \<and> DeductBalance d u amount = (Inl AccountNotExist, exec (SELECT_balance u) d)"
    using assms by (simp add: RechargeBalance_def DeductBalance_def update_user_account_def)
  have svc: "u \<noteq> [] \<longrightarrow>
            (fst (Recharge db \<lparr>rc_UserUUID = u, rc_Amount = amount\<rparr>)
               = Inl (Wrapped W_UserLookup UserNotExist)
             \<or> fst (Recharge db \<lparr>rc_UserUUID = u, rc_Amount = amount\<rparr>)
               = Inl (Wrapped W_Recharge AccountNotExistOrNotUpdated))
          \<and> (fst (Deduct db \<lparr>dd_UserUUID = u, dd_Amount = amount\<rparr>)
               = Inl (Wrapped W_UserLookup UserNotExist)
             \<or> fst (Deduct db \<lparr>dd_UserUUID = u, dd_Amount = amount\<rparr>)
               = Inl (Wrapped W_Deduct AccountNotExist))
          \<and> user_account (snd (Recharge db \<lparr>rc_UserUUID = u, rc_Amount = amount\<rparr>))
              = user_account db
          \<and> user_account (snd (Deduct db \<lparr>dd_UserUUID = u, dd_Amount = amount\<rparr>))
              = user_account db"
    using GetUserByUuid_cases [of db u] assms(2)
      repo [of "exec (SELECT_user_by_uuid u) db"]
    by (auto simp: Recharge_def Deduct_def)
  from repo [of db] svc show ?thesis by simp
qed

theorem missing_account_not_found_witness:
  "user_account db_init ''u1'' = None \<and> (0 :: decimal) < 10
   \<and> RechargeBalance db_init ''u1'' 10
       = (Inl AccountNotExistOrNotUpdated, exec (UPDATE_recharge 10 10 ''u1'') db_init)
   \<and> DeductBalance db_init ''u1'' 10 = (Inl AccountNotExist, exec (SELECT_balance ''u1'') db_init)
   \<and> fst (Recharge db_init \<lparr>rc_UserUUID = ''u1'', rc_Amount = 10\<rparr>)
       = Inl (Wrapped W_Recharge AccountNotExistOrNotUpdated)
   \<and> fst (Deduct db_init \<lparr>dd_UserUUID = ''u1'', dd_Amount = 10\<rparr>)
       = Inl (Wrapped W_Deduct AccountNotExist)"
proof -
  have h1: "user_account db_init ''u1'' = None" by (simp add: db_init_def)
  have h2: "(0 :: decimal) < 10" by simp
  have r: "fst (Recharge db_init \<lparr>rc_UserUUID = ''u1'', rc_Amount = 10\<rparr>)
       \<noteq> Inl (Wrapped W_UserLookup UserNotExist)"
    by (simp add: db_init_def ledger_eval)
  have d: "fst (Deduct db_init \<lparr>dd_UserUUID = ''u1'', dd_Amount = 10\<rparr>)
       \<noteq> Inl (Wrapped W_UserLookup UserNotExist)"
    by (simp add: db_init_def ledger_eval)
  from missing_account_not_found [OF h1 h2] h1 h2 r d
  show ?thesis by simp
qed

section \<open>Properties of the resource counters\<close>

lemma row_by_id_map:
  assumes "\<And>r. row_id (h r) = row_id r"
  shows "row_by_id (map h rows) j = map_option h (row_by_id rows j)"
  using assms by (induction rows) (auto simp: row_by_id_def)

lemma row_by_id_Some_id: "row_by_id rows j = Some r \<Longrightarrow> row_id r = j"
  by (auto simp: row_by_id_def dest: find_Some_iff [THEN iffD1])

lemma row_by_id_replace:
  assumes "row_id r' = i"
  shows "row_by_id (map (\<lambda>x. if row_id x = i then r' else x) rows) j
         = (if j = i then map_option (\<lambda>x. r') (row_by_id rows i) else row_by_id rows j)"
proof -
  have "row_by_id (map (\<lambda>x. if row_id x = i then r' else x) rows) j
      = map_option (\<lambda>x. if row_id x = i then r' else x) (row_by_id rows j)"
    using assms by (intro row_by_id_map) simp
  then show ?thesis
    by (cases "row_by_id rows j") (auto dest: row_by_id_Some_id)
qed

lemma store_uint32_succ:
  fixes c :: uint32
  assumes "unat c < 4294967295"
  shows "store_uint32 s (Suc (unat c)) = Some (c + 1)" and "unat (c + 1) = unat c + 1"
proof -
  show "store_uint32 s (Suc (unat c)) = Some (c + 1)"
    using assms by (simp add: store_uint32_def)
  show "unat (c + 1) = unat c + 1"
    using assms by (simp add: unat_word_ariths)
qed

lemma store_uint32_full:
  "store_uint32 s (Suc (unat (4294967295 :: uint32))) = (if s then None else Some 4294967295)"
  by (simp add: store_uint32_def)

lemma update_resource_None:
  "row_by_id (resources d) i = None \<Longrightarrow> update_resource f i d = (True, d)"
  by (simp add: update_resource_def)

lemma update_resource_queries:
  "queries (snd (update_resource f i d)) = queries d"
  by (simp add: update_resource_def split: option.splits)

lemma incr_none:
  assumes "row_by_id (resources db) i = None"
  shows "repo_IncrLikeCount db i = (Inr (), exec (UPDATE_like_count i) db)"
    and "repo_IncrViewCount db i = (Inr (), exec (UPDATE_view_count i) db)"
    and "IncrCommentCount db i = (Inr (), exec (UPDATE_comment_count i) db)"
  using assms
  by (simp_all add: repo_IncrLikeCount_def repo_IncrViewCount_def IncrCommentCount_def
      update_resource_None)

lemma repo_IncrLikeCount_rows:
  "resources (snd (repo_IncrLikeCount db i))
     = (case row_by_id (resources db) i of
          None \<Rightarrow> resources db
        | Some r \<Rightarrow>
            (case store_uint32 (sql_strict db) (unat (row_like_count r) + 1) of
               None \<Rightarrow> resources db
             | Some c \<Rightarrow> map (\<lambda>x. if row_id x = i then r\<lparr>row_like_count := c\<rparr> else x)
                          (resources db)))"
  by (simp add: repo_IncrLikeCount_def update_resource_def split: option.splits)

lemma repo_IncrLikeCount_below:
  assumes "row_by_id (resources db) i = Some r" and "unat (row_like_count r) < 4294967295"
  shows "repo_IncrLikeCount db i
          = (Inr (),
             (exec (UPDATE_like_count i) db)
               \<lparr>resources := map (\<lambda>x. if row_id x = i
                                      then r\<lparr>row_like_count := row_like_count r + 1\<rparr> else x)
                               (resources db),
                resources_updated_at := (resources_updated_at db)(i \<mapsto> server_time db)\<rparr>)"
    and "row_by_id (resources (snd (repo_IncrLikeCount db i))) i
          = Some (r\<lparr>row_like_count := row_like_count r + 1\<rparr>)"
  using assms store_uint32_succ(1) [OF assms(2), of "sql_strict db"]
    row_by_id_Some_id [OF assms(1)]
  by (simp_all add: repo_IncrLikeCount_def update_resource_def row_by_id_replace)

lemma repo_IncrLikeCount_other:
  assumes "j \<noteq> i"
  shows "row_by_id (resources (snd (repo_IncrLikeCount db i))) j = row_by_id (resources db) j"
proof (cases "row_by_id (resources db) i")
  case None
  then show ?thesis by (simp add: repo_IncrLikeCount_rows)
next
  case (Some r)
  then show ?thesis
    using assms row_by_id_Some_id [OF Some]
    by (simp add: repo_IncrLikeCount_rows row_by_id_replace split: option.splits)
qed

lemma repo_IncrLikeCount_full:
  assumes "row_by_id (resources db) i = Some r" and "row_like_count r = 4294967295"
  shows "row_by_id (resources (snd (repo_IncrLikeCount db i))) i = Some r"
proof -
  have "r\<lparr>row_like_count := 4294967295\<rparr> = r"
    using assms(2) by simp
  then show ?thesis
    using assms row_by_id_Some_id [OF assms(1)] store_uint32_full [of "sql_strict db"]
    by (simp add: repo_IncrLikeCount_rows row_by_id_replace)
qed

lemma repo_IncrViewCount_rows:
  "resources (snd (repo_IncrViewCount db i))
     = (case row_by_id (resources db) i of
          None \<Rightarrow> resources db
        | Some r \<Rightarrow>
            (case store_uint32 (sql_strict db) (unat (row_view_count r) + 1) of
               None \<Rightarrow> resources db
             | Some c \<Rightarrow> map (\<lambda>x. if row_id x = i then r\<lparr>row_view_count := c\<rparr> else x)
                          (resources db)))"
  by (simp add: repo_IncrViewCount_def update_resource_def split: option.splits)

lemma repo_IncrViewCount_below:
  assumes "row_by_id (resources db) i = Some r" and "unat (row_view_count r) < 4294967295"
  shows "repo_IncrViewCount db i
          = (Inr (),
             (exec (UPDATE_view_count i) db)
               \<lparr>resources := map (\<lambda>x. if row_id x = i
                                      then r\<lparr>row_view_count := row_view_count r + 1\<rparr> else x)
                               (resources db),
                resources_updated_at := (resources_updated_at db)(i \<mapsto> server_time db)\<rparr>)"
    and "row_by_id (resources (snd (repo_IncrViewCount db i))) i
          = Some (r\<lparr>row_view_count := row_view_count r + 1\<rparr>)"
  using assms store_uint32_succ(1) [OF assms(2), of "sql_strict db"]
    row_by_id_Some_id [OF assms(1)]
  by (simp_all add: repo_IncrViewCount_def update_resource_def row_by_id_replace)

lemma repo_IncrViewCount_other:
  assumes "j \<noteq> i"
  shows "row_by_id (resources (snd (repo_IncrViewCount db i))) j = row_by_id (resources db) j"
proof (cases "row_by_id (resources db) i")
  case None
  then show ?thesis by (simp add: repo_IncrViewCount_rows)
next
  case (Some r)
  then show ?thesis
    using assms row_by_id_Some_id [OF Some]
    by (simp add: repo_IncrViewCount_rows row_by_id_replace split: option.splits)
qed

lemma repo_IncrViewCount_full:
  assumes "row_by_id (resources db) i = Some r" and "row_view_count r = 4294967295"
  shows "row_by_id (resources (snd (repo_IncrViewCount db i))) i = Some r"
proof -
  have "r\<lparr>row_view_count := 4294967295\<rparr> = r"
    using assms(2) by simp
  then show ?thesis
    using assms row_by_id_Some_id [OF assms(1)] store_uint32_full [of "sql_strict db"]
    by (simp add: repo_IncrViewCount_rows row_by_id_replace)
qed

lemma IncrCommentCount_rows:
  "resources (snd (IncrCommentCount db i))
     = (case row_by_id (resources db) i of
          None \<Rightarrow> resources db
        | Some r \<Rightarrow>
            (case store_uint32 (sql_strict db) (unat (row_comment_count r) + 1) of
               None \<Rightarrow> resources db
             | Some c \<Rightarrow> map (\<lambda>x. if row_id x = i then r\<lparr>row_comment_count := c\<rparr> else x)
                          (resources db)))"
  by (simp add: IncrCommentCount_def update_resource_def split: option.splits)

lemma IncrCommentCount_below:
  assumes "row_by_id (resources db) i = Some r" and "unat (row_comment_count r) < 4294967295"
  shows "IncrCommentCount db i
          = (Inr (),
             (exec (UPDATE_comment_count i) db)
               \<lparr>resources := map (\<lambda>x. if row_id x = i
                                      then r\<lparr>row_comment_count := row_comment_count r + 1\<rparr> else x)
                               (resources db),
                resources_updated_at := (resources_updated_at db)(i \<mapsto> server_time db)\<rparr>)"
    and "row_by_id (resources (snd (IncrCommentCount db i))) i
          = Some (r\<lparr>row_comment_count := row_comment_count r + 1\<rparr>)"
  using assms store_uint32_succ(1) [OF assms(2), of "sql_strict db"]
    row_by_id_Some_id [OF assms(1)]
  by (simp_all add: IncrCommentCount_def update_resource_def row_by_id_replace)

lemma IncrCommentCount_other:
  assumes "j \<noteq> i"
  shows "row_by_id (resources (snd (IncrCommentCount db i))) j = row_by_id (resources db) j"
proof (cases "row_by_id (resources db) i")
  case None
  then show ?thesis by (simp add: IncrCommentCount_rows)
next
  case (Some r)
  then show ?thesis
    using assms row_by_id_Some_id [OF Some]
    by (simp add: IncrCommentCount_rows row_by_id_replace split: option.splits)
qed

lemma IncrCommentCount_full:
  assumes "row_by_id (resources db) i = Some r" and "row_comment_count r = 4294967295"
  shows "row_by_id (resources (snd (IncrCommentCount db i))) i = Some r"
proof -
  have "r\<lparr>row_comment_count := 4294967295\<rparr> = r"
    using assms(2) by simp
  then show ?thesis
    using assms row_by_id_Some_id [OF assms(1)] store_uint32_full [of "sql_strict db"]
    by (simp add: IncrCommentCount_rows row_by_id_replace)
qed

text \<open>
  Claim C5, as stated, at an id with no resource: the table of \<open>db_init\<close> is empty, and
  each of the three store increments for id 7 reports success, not "not found".
\<close>

theorem incr_missing_id_reports_success:
  "row_by_id (resources db_init) 7 = None
   \<and> fst (repo_IncrLikeCount db_init 7) = Inr ()
   \<and> fst (repo_IncrViewCount db_init 7) = Inr ()
   \<and> fst (IncrCommentCount db_init 7) = Inr ()"
proof -
  have n: "row_by_id (resources db_init) 7 = None"
    by (simp add: db_init_def row_by_id_def)
  show ?thesis
    using n incr_none [OF n] by simp
qed

text \<open>
  Claim C5, amended. None of the three store increments returns "not found". For an id
  with no resource each returns ok and leaves the state as it was, the logged statement
  apart. For an existing id whose counter is below 4294967295, the largest value of the
  column, each returns ok, adds exactly one to its counter of that row and sets
  \<open>updated_at\<close> of that id to the current timestamp; nothing else changes. Rows with
  another id are never touched, and a counter that has reached 4294967295 stays there.
\<close>

theorem incr_counters:
  "(row_by_id (resources db) i = None \<longrightarrow>
        repo_IncrLikeCount db i = (Inr (), exec (UPDATE_like_count i) db)
      \<and> repo_IncrViewCount db i = (Inr (), exec (UPDATE_view_count i) db)
      \<and> IncrCommentCount db i = (Inr (), exec (UPDATE_comment_count i) db))
   \<and> (\<forall>r. row_by_id (resources db) i = Some r \<and> unat (row_like_count r) < 4294967295 \<longrightarrow>
        repo_IncrLikeCount db i
          = (Inr (),
             (exec (UPDATE_like_count i) db)
               \<lparr>resources := map (\<lambda>x. if row_id x = i
                                      then r\<lparr>row_like_count := row_like_count r + 1\<rparr> else x)
                               (resources db),
                resources_updated_at := (resources_updated_at db)(i \<mapsto> server_time db)\<rparr>)
      \<and> unat (row_like_count r + 1) = unat (row_like_count r) + 1
      \<and> row_by_id (resources (snd (repo_IncrLikeCount db i))) i
          = Some (r\<lparr>row_like_count := row_like_count r + 1\<rparr>))
   \<and> (\<forall>r. row_by_id (resources db) i = Some r \<and> unat (row_view_count r) < 4294967295 \<longrightarrow>
        repo_IncrViewCount db i
          = (Inr (),
             (exec (UPDATE_view_count i) db)
               \<lparr>resources := map (\<lambda>x. if row_id x = i
                                      then r\<lparr>row_view_count := row_view_count r + 1\<rparr> else x)
                               (resources db),
                resources_updated_at := (resources_updated_at db)(i \<mapsto> server_time db)\<rparr>)
      \<and> unat (row_view_count r + 1) = unat (row_view_count r) + 1
      \<and> row_by_id (resources (snd (repo_IncrViewCount db i))) i
          = Some (r\<lparr>row_view_count := row_view_count r + 1\<rparr>))
   \<and> (\<forall>r. row_by_id (resources db) i = Some r \<and> unat (row_comment_count r) < 4294967295 \<longrightarrow>
        IncrCommentCount db i
          = (Inr (),
             (exec (UPDATE_comment_count i) db)
               \<lparr>resources := map (\<lambda>x. if row_id x = i
                                      then r\<lparr>row_comment_count := row_comment_count r + 1\<rparr>
                                      else x)
                               (resources db),
                resources_updated_at := (resources_updated_at db)(i \<mapsto> server_time db)\<rparr>)
      \<and> unat (row_comment_count r + 1) = unat (row_comment_count r) + 1
      \<and> row_by_id (resources (snd (IncrCommentCount db i))) i
          = Some (r\<lparr>row_comment_count := row_comment_count r + 1\<rparr>))
   \<and> (\<forall>j. j \<noteq> i \<longrightarrow>
        row_by_id (resources (snd (repo_IncrLikeCount db i))) j = row_by_id (resources db) j
      \<and> row_by_id (resources (snd (repo_IncrViewCount db i))) j = row_by_id (resources db) j
      \<and> row_by_id (resources (snd (IncrCommentCount db i))) j = row_by_id (resources db) j)
   \<and> (\<forall>r. row_by_id (resources db) i = Some r \<longrightarrow>
        (row_like_count r = 4294967295 \<longrightarrow>
           row_by_id (resources (snd (repo_IncrLikeCount db i))) i = Some r)
      \<and> (row_view_count r = 4294967295 \<longrightarrow>
           row_by_id (resources (snd (repo_IncrViewCount db i))) i = Some r)
      \<and> (row_comment_count r = 4294967295 \<longrightarrow>
           row_by_id (resources (snd (IncrCommentCount db i))) i = Some r))"
proof -
  have none: "row_by_id (resources db) i = None \<longrightarrow>
        repo_IncrLikeCount db i = (Inr (), exec (UPDATE_like_count i) db)
      \<and> repo_IncrViewCount db i = (Inr (), exec (UPDATE_view_count i) db)
      \<and> IncrCommentCount db i = (Inr (), exec (UPDATE_comment_count i) db)"
    using incr_none [of db i] by blast
  have below: "\<And>c :: uint32. unat c < 4294967295 \<Longrightarrow> unat (c + 1) = unat c + 1"
    by (rule store_uint32_succ(2))
  from none below
    repo_IncrLikeCount_below [of db i] repo_IncrViewCount_below [of db i]
    IncrCommentCount_below [of db i]
    repo_IncrLikeCount_other [of _ i db] repo_IncrViewCount_other [of _ i db]
    IncrCommentCount_other [of _ i db]
    repo_IncrLikeCount_full [of db i] repo_IncrViewCount_full [of db i]
    IncrCommentCount_full [of db i]
  show ?thesis by blast
qed

theorem incr_counters_witness:
  "row_by_id (resources db_one) 1 = Some row_one
   \<and> unat (row_like_count row_one) < 4294967295
   \<and> unat (row_view_count row_one) < 4294967295
   \<and> unat (row_comment_count row_one) < 4294967295
   \<and> row_by_id (resources (snd (repo_IncrLikeCount db_one 1))) 1
       = Some (row_one\<lparr>row_like_count := 6\<rparr>)
   \<and> row_by_id (resources (snd (repo_IncrViewCount db_one 1))) 1
       = Some (row_one\<lparr>row_view_count := 21\<rparr>)
   \<and> row_by_id (resources (snd (IncrCommentCount db_one 1))) 1
       = Some (row_one\<lparr>row_comment_count := 3\<rparr>)
   \<and> resources_updated_at (snd (repo_IncrLikeCount db_one 1)) 1 = Some 2000
   \<and> row_by_id (resources db_one) 7 = None
   \<and> repo_IncrLikeCount db_one 7 = (Inr (), exec (UPDATE_like_count 7) db_one)
   \<and> (1 :: uint64) \<noteq> 7
   \<and> row_by_id (resources (snd (repo_IncrLikeCount db_one 7))) 1 = Some row_one"
proof -
  have a: "row_by_id (resources db_one) 1 = Some row_one"
    by (simp add: db_one_def row_by_id_def row_one_def)
  have b: "row_by_id (resources db_one) 7 = None"
    by (simp add: db_one_def row_by_id_def row_one_def)
  have c: "(1 :: uint64) \<noteq> 7"
    by simp
  have u: "unat (row_like_count row_one) < 4294967295"
    "unat (row_view_count row_one) < 4294967295"
    "unat (row_comment_count row_one) < 4294967295"
    by (simp_all add: row_one_def)
  have v: "row_like_count row_one + 1 = 6" "row_view_count row_one + 1 = 21"
    "row_comment_count row_one + 1 = 3"
    by (simp_all add: row_one_def)
  have t: "server_time db_one = 2000" "resources_updated_at db_one = Map.empty"
    by (simp_all add: db_one_def db_init_def)
  note one = incr_counters [of db_one 1]
  note seven = incr_counters [of db_one 7]
  have l: "row_by_id (resources (snd (repo_IncrLikeCount db_one 1))) 1
       = Some (row_one\<lparr>row_like_count := row_like_count row_one + 1\<rparr>)"
    using one a u(1) by blast
  have w: "row_by_id (resources (snd (repo_IncrViewCount db_one 1))) 1
       = Some (row_one\<lparr>row_view_count := row_view_count row_one + 1\<rparr>)"
    using one a u(2) by blast
  have m: "row_by_id (resources (snd (IncrCommentCount db_one 1))) 1
       = Some (row_one\<lparr>row_comment_count := row_comment_count row_one + 1\<rparr>)"
    using one a u(3) by blast
  have "repo_IncrLikeCount db_one 1
          = (Inr (),
             (exec (UPDATE_like_count 1) db_one)
               \<lparr>resources := map (\<lambda>x. if row_id x = 1
                                      then row_one\<lparr>row_like_count := row_like_count row_one + 1\<rparr>
                                      else x)
                               (resources db_one),
                resources_updated_at := (resources_updated_at db_one)(1 \<mapsto> server_time db_one)\<rparr>)"
    using one a u(1) by blast
  then have ts: "resources_updated_at (snd (repo_IncrLikeCount db_one 1)) 1 = Some 2000"
    by (simp add: t)
  have n: "repo_IncrLikeCount db_one 7 = (Inr (), exec (UPDATE_like_count 7) db_one)"
    using seven b by blast
  have k: "row_by_id (resources (snd (repo_IncrLikeCount db_one 7))) 1 = Some row_one"
    using seven c a by metis
  from a u l [unfolded v] w [unfolded v] m [unfolded v] ts b n c k
  show ?thesis by blast
qed

section \<open>Properties of the resource service\<close>

lemma snd_result:
  "snd (let (ok, db1) = p in if ok then (Inr (), db1) else (Inl e, db1)) = snd p"
  by (cases p) simp

lemma repo_IncrViewCount_queries:
  "queries (snd (repo_IncrViewCount db i)) = queries db @ [UPDATE_view_count i]"
  unfolding repo_IncrViewCount_def snd_result
  by (simp add: update_resource_queries)

text \<open>
  Claim C7, at id 0. \<open>IncrViewCount\<close> has no check of the id: it sends the update for
  id 0 to the store, and on every table without a row of id 0 (ids are assigned from 1)
  it returns no error. Its sibling \<open>IncrLikeCount\<close> rejects id 0 and leaves the state,
  statement log included, as it was.
\<close>

theorem IncrViewCount_zero_id:
  "(row_by_id (resources db) 0 = None \<longrightarrow>
      IncrViewCount db 0 = (Inr (), exec (UPDATE_view_count 0) db))
   \<and> queries (snd (IncrViewCount db 0)) = queries db @ [UPDATE_view_count 0]
   \<and> IncrLikeCount db 0 = (Inl (ResourceIDInvalid 0), db)"
proof -
  have q: "queries (snd (IncrViewCount db 0)) = queries db @ [UPDATE_view_count 0]"
    using repo_IncrViewCount_queries [of db 0]
    by (cases "repo_IncrViewCount db 0") (auto simp: IncrViewCount_def split: sum.splits)
  have n: "row_by_id (resources db) 0 = None \<longrightarrow>
      IncrViewCount db 0 = (Inr (), exec (UPDATE_view_count 0) db)"
    by (simp add: IncrViewCount_def incr_none)
  have l: "IncrLikeCount db 0 = (Inl (ResourceIDInvalid 0), db)"
    by (simp add: IncrLikeCount_def)
  from n q l show ?thesis by blast
qed

theorem IncrViewCount_zero_id_witness:
  "row_by_id (resources db_one) 0 = None
   \<and> fst (IncrViewCount db_one 0) = Inr ()
   \<and> queries (snd (IncrViewCount db_one 0)) = [UPDATE_view_count 0]"
proof -
  have h: "row_by_id (resources db_one) 0 = None"
    by (simp add: db_one_def row_by_id_def row_one_def)
  have q: "queries db_one = []"
    by (simp add: db_one_def db_init_def)
  from IncrViewCount_zero_id [of db_one] h q show ?thesis by simp
qed

text \<open>
  Claim C8, at page 576460752303423489 and size 32, on the table with one resource.
  Both parameters pass the validation; \<open>(page - 1) * size\<close> is \<open>2 ^ 64\<close> over the
  integers and wraps to 0 in a 64-bit \<open>int\<close>, so the page query runs with offset 0 and
  the service returns the first page.
\<close>

theorem GetResourceList_offset_wraps:
  "GetResourceList L db_one 576460752303423489 32 []
     = (Inr ([convertModelToDTO L (scanRow row_one)], 1),
        db_one\<lparr>queries := [SELECT_count_resources [], SELECT_resources_page [] 0 32]\<rparr>)
   \<and> (sint (576460752303423489 :: go_int) - 1) * sint (32 :: go_int) = 18446744073709551616"
  by (simp add: GetResourceList_def CountResources_def repo_GetResourceList_def
      keyword_filter_def order_by_publish_time_desc_def db_one_def db_init_def exec_def)

text \<open>
  Where the product does not overflow, the list operation does what claim C8 says: it
  rejects \<open>page < 1\<close> and a size outside 1..50 without a query, uses the offset
  \<open>(page - 1) * size\<close>, stops after the count when nothing matches, and otherwise
  returns the page and the count of all matching rows.
\<close>

lemma offset_in_range:
  fixes page pageSize :: go_int
  assumes "1 \<le> sint page" and "1 \<le> sint pageSize"
    and "(sint page - 1) * sint pageSize < 2 ^ 63"
  shows "sint ((page - 1) * pageSize) = (sint page - 1) * sint pageSize"
proof -
  have "sint page < 2 ^ 63"
    using sint_lt [of page] by simp
  then have p1: "sint (page - 1) = sint page - 1"
    using assms(1) by (simp add: sint_word_ariths signed_take_bit_int_eq_self)
  have "0 \<le> (sint page - 1) * sint pageSize"
    using assms(1,2) by simp
  then show ?thesis
    using assms(3) p1 by (simp add: sint_word_ariths signed_take_bit_int_eq_self)
qed

lemma GetResourceList_without_overflow:
  assumes "1 \<le> sint page" and "1 \<le> sint pageSize" and "sint pageSize \<le> 50"
    and "(sint page - 1) * sint pageSize < 2 ^ 63"
  shows "GetResourceList L db page pageSize keyword
     = (let rows = filter (keyword_filter L keyword) (resources db);
            db1 = exec (SELECT_count_resources keyword) db in
        if length rows = 0 then (Inr ([], 0), db1)
        else
          (Inr (map (convertModelToDTO L)
                  (map scanRow
                     (take (nat (sint pageSize))
                        (drop (nat ((sint page - 1) * sint pageSize))
                           (order_by_publish_time_desc rows)))),
                length rows),
           exec (SELECT_resources_page keyword ((sint page - 1) * sint pageSize)
                   (sint pageSize)) db1))"
proof -
  have "\<not> (sint page - 1) * sint pageSize < 0"
    using assms(1,2) by (simp add: not_less)
  then show ?thesis
    using assms offset_in_range [OF assms(1,2,4)]
    by (simp add: GetResourceList_def CountResources_def repo_GetResourceList_def Let_def)
qed

lemma GetResourceList_rejects:
  "sint page < 1 \<Longrightarrow> GetResourceList L db page pageSize keyword = (Inl (PageInvalid (sint page)), db)"
  "1 \<le> sint page \<Longrightarrow> sint pageSize < 1 \<or> 50 < sint pageSize \<Longrightarrow>
   GetResourceList L db page pageSize keyword = (Inl (SizeInvalid (sint pageSize)), db)"
  by (auto simp: GetResourceList_def)

lemma GetUserById_cases:
  "GetUserById db i
     = (case find (\<lambda>u. u_ID u = i) (users db) of
          None \<Rightarrow> (Inl UserIDNotExist, exec (SELECT_user_by_id i) db)
        | Some u \<Rightarrow> (Inr (Some u), exec (SELECT_user_by_id i) db))"
  by (simp add: GetUserById_def Let_def)

text \<open>
  Claim C6. \<open>CreateResource\<close> works on the trimmed title. When the trimmed title is
  empty or longer than 100 it returns a validation error and the state it was given, so
  no row is persisted. (\<open>len\<close> counts bytes, and a title of more than 100 characters has
  more than 100 bytes.) When it succeeds, the owner is a row of \<open>users\<close> and exactly
  one row was appended to \<open>resources\<close>: the trimmed title, the three counters zero, and
  as author the username that row of \<open>users\<close> holds at the time of the call.
\<close>

theorem CreateResource_title_and_counters:
  "(TrimSpace L title = [] \<or> 100 < length (TrimSpace L title) \<longrightarrow>
      CreateResource L now db userID title text code
        = (Inl (if userID = 0 then UserIDZero
                else if TrimSpace L title = [] then TitleEmpty
                else TitleTooLong (length (TrimSpace L title))), db))
   \<and> (\<forall>db'. CreateResource L now db userID title text code = (Inr (), db') \<longrightarrow>
        (\<exists>owner. find (\<lambda>u. u_ID u = userID) (users db) = Some owner
           \<and> resources db' = resources db @
               [\<lparr>row_id = resources_seq db, row_user_id = userID,
                 row_title = TrimSpace L title,
                 row_text_content = Some (TrimSpace L text),
                 row_code_content = Some code,
                 row_author = u_Username owner, row_publish_time = now,
                 row_like_count = 0, row_view_count = 0, row_comment_count = 0\<rparr>]))"
proof -
  have bad: "TrimSpace L title = [] \<or> 100 < length (TrimSpace L title) \<longrightarrow>
      CreateResource L now db userID title text code
        = (Inl (if userID = 0 then UserIDZero
                else if TrimSpace L title = [] then TitleEmpty
                else TitleTooLong (length (TrimSpace L title))), db)"
    by (simp add: CreateResource_def Let_def)
  have good: "\<forall>db'. CreateResource L now db userID title text code = (Inr (), db') \<longrightarrow>
        (\<exists>owner. find (\<lambda>u. u_ID u = userID) (users db) = Some owner
           \<and> resources db' = resources db @
               [\<lparr>row_id = resources_seq db, row_user_id = userID,
                 row_title = TrimSpace L title,
                 row_text_content = Some (TrimSpace L text),
                 row_code_content = Some code,
                 row_author = u_Username owner, row_publish_time = now,
                 row_like_count = 0, row_view_count = 0, row_comment_count = 0\<rparr>])"
    by (auto simp: CreateResource_def Let_def GetUserById_cases repo_CreateResource_def
        store_uint32_def split: if_splits option.splits)
  from bad good show ?thesis by blast
qed

lemma trim_examples:
  "trim_ascii ''   '' = []" "trim_ascii ''  Go Tutorial '' = ''Go Tutorial''"
  "trim_ascii ''alice'' = ''alice''" "trim_ascii ''intro'' = ''intro''"
  by (simp_all add: trim_ascii_def ascii_space_def)

theorem CreateResource_title_and_counters_witness:
  "TrimSpace demo_lib ''   '' = []
   \<and> CreateResource demo_lib 1000 db_init 1 ''   '' ''intro'' ''package main''
       = (Inl TitleEmpty, db_init)
   \<and> fst (CreateResource demo_lib 1000 db_init 1 ''  Go Tutorial '' ''intro'' ''package main'')
       = Inr ()
   \<and> resources (snd (CreateResource demo_lib 1000 db_init 1 ''  Go Tutorial '' ''intro''
                      ''package main''))
       = [\<lparr>row_id = 1, row_user_id = 1, row_title = ''Go Tutorial'',
           row_text_content = Some ''intro'', row_code_content = Some ''package main'',
           row_author = ''alice'', row_publish_time = 1000,
           row_like_count = 0, row_view_count = 0, row_comment_count = 0\<rparr>]"
proof -
  have t: "TrimSpace demo_lib ''   '' = []" "TrimSpace demo_lib ''  Go Tutorial '' = ''Go Tutorial''"
    "TrimSpace demo_lib ''intro'' = ''intro''" "TrimSpace demo_lib ''alice'' = ''alice''"
    by (simp_all add: demo_lib_def trim_examples)
  have ok: "fst (CreateResource demo_lib 1000 db_init 1 ''  Go Tutorial '' ''intro'' ''package main'')
       = Inr ()"
    by (simp add: CreateResource_def Let_def GetUserById_cases repo_CreateResource_def
        store_uint32_def db_init_def t)
  then have eq: "CreateResource demo_lib 1000 db_init 1 ''  Go Tutorial '' ''intro'' ''package main''
      = (Inr (), snd (CreateResource demo_lib 1000 db_init 1 ''  Go Tutorial '' ''intro''
                        ''package main''))"
    by (simp add: prod_eq_iff)
  have f: "find (\<lambda>u. u_ID u = 1) (users db_init)
      = Some \<lparr>u_ID = 1, u_UUID = ''u1'', u_Username = ''alice''\<rparr>"
    "resources db_init = []" "resources_seq db_init = 1"
    by (simp_all add: db_init_def)
  have one: "(1 :: uint64) \<noteq> 0" by simp
  have bad: "CreateResource demo_lib 1000 db_init 1 ''   '' ''intro'' ''package main''
       = (Inl TitleEmpty, db_init)"
    using CreateResource_title_and_counters
      [of demo_lib "''   ''" 1000 db_init 1 "''intro''" "''package main''", THEN conjunct1]
      t(1) one
    by simp
  have good: "\<exists>owner. find (\<lambda>u. u_ID u = 1) (users db_init) = Some owner
           \<and> resources (snd (CreateResource demo_lib 1000 db_init 1 ''  Go Tutorial '' ''intro''
                      ''package main'')) = resources db_init @
               [\<lparr>row_id = resources_seq db_init, row_user_id = 1,
                 row_title = TrimSpace demo_lib ''  Go Tutorial '',
                 row_text_content = Some (TrimSpace demo_lib ''intro''),
                 row_code_content = Some ''package main'',
                 row_author = u_Username owner, row_publish_time = 1000,
                 row_like_count = 0, row_view_count = 0, row_comment_count = 0\<rparr>]"
    using CreateResource_title_and_counters
      [of demo_lib "''  Go Tutorial ''" 1000 db_init 1 "''intro''" "''package main''",
        THEN conjunct2, rule_format, OF eq] .
  then have res: "resources (snd (CreateResource demo_lib 1000 db_init 1 ''  Go Tutorial ''
                      ''intro'' ''package main''))
       = [\<lparr>row_id = 1, row_user_id = 1, row_title = ''Go Tutorial'',
           row_text_content = Some ''intro'', row_code_content = Some ''package main'',
           row_author = ''alice'', row_publish_time = 1000,
           row_like_count = 0, row_view_count = 0, row_comment_count = 0\<rparr>]"
    unfolding f t by simp
  from t(1) bad ok res show ?thesis by blast
qed

text \<open>
  Claim C9. For a positive id with no row in \<open>resources\<close>, \<open>GetResourceByID\<close> returns a
  \<open>nil\<close> resource and no error, after one query. For id 0 it returns the validation
  error without a query. The two results differ.
\<close>

theorem GetResourceByID_absent:
  "(i \<noteq> 0 \<and> row_by_id (resources db) i = None \<longrightarrow>
      GetResourceByID db i = (Inr None, exec (SELECT_resource_by_id i) db))
   \<and> GetResourceByID db 0 = (Inl (ResourceIDNotPositive 0), db)
   \<and> (Inr None :: error + Resource option) \<noteq> Inl (ResourceIDNotPositive 0)"
  by (simp add: GetResourceByID_def repo_GetResourceByID_def)

theorem GetResourceByID_absent_witness:
  "(7 :: uint64) \<noteq> 0 \<and> row_by_id (resources db_one) 7 = None
   \<and> GetResourceByID db_one 7 = (Inr None, exec (SELECT_resource_by_id 7) db_one)"
proof -
  have h: "(7 :: uint64) \<noteq> 0" "row_by_id (resources db_one) 7 = None"
    by (simp_all add: db_one_def row_by_id_def row_one_def)
  from GetResourceByID_absent [of 7 db_one] h show ?thesis by simp
qed


lemma CreateComment_run:
  assumes "i \<noteq> 0" and "TrimSpace L c \<noteq> []"
  shows "CreateComment L db i c
         = (case IncrCommentCount db i of
              (Inl e, db1) \<Rightarrow> (Inl (Wrapped W_CommentCount e), db1)
            | (Inr _, db1) \<Rightarrow> (Inr (), db1))"
  using assms by (simp add: CreateComment_def)

text \<open>
  Claim C10, as stated, on the table with one resource: a comment on resource 1 succeeds
  and, besides the counter, changes \<open>updated_at\<close> of that resource, which had no value
  written by an update before and holds the current timestamp afterwards.
\<close>

theorem comment_also_sets_updated_at:
  "fst (CreateComment demo_lib db_one 1 ''nice'') = Inr ()
   \<and> resources_updated_at db_one 1 = None
   \<and> resources_updated_at (snd (CreateComment demo_lib db_one 1 ''nice'')) 1 = Some 2000"
proof -
  have h: "(1 :: uint64) \<noteq> 0" "TrimSpace demo_lib ''nice'' \<noteq> []"
    by (simp_all add: demo_lib_def trim_ascii_def ascii_space_def)
  have a: "row_by_id (resources db_one) 1 = Some row_one"
    "unat (row_comment_count row_one) < 4294967295"
    by (simp_all add: db_one_def row_by_id_def row_one_def)
  have t: "server_time db_one = 2000" "resources_updated_at db_one = Map.empty"
    by (simp_all add: db_one_def db_init_def)
  show ?thesis
    by (simp add: CreateComment_run [OF h] IncrCommentCount_below(1) [OF a] t)
qed

text \<open>
  Claim C10, amended. For an id \<open>\<ge> 1\<close> and contents that are not blank after trimming,
  \<open>CreateComment\<close> does not depend on the content: two calls from the same state with
  the same id return the same result and the same state, and the comment text is stored
  nowhere. Its effect is that of the counter update: none but the logged statement
  when no resource has the id; for a resource with fewer than 4294967295 comments,
  \<open>comment_count\<close> of that row is one more and \<open>updated_at\<close> of that id is the current
  timestamp, and nothing else changes. Rows with another id are never touched.
\<close>

theorem CreateComment_only_counts:
  assumes "i \<noteq> 0" and "TrimSpace L c1 \<noteq> []" and "TrimSpace L c2 \<noteq> []"
  shows "CreateComment L db i c1 = CreateComment L db i c2
       \<and> (row_by_id (resources db) i = None \<longrightarrow>
            CreateComment L db i c1 = (Inr (), exec (UPDATE_comment_count i) db))
       \<and> (\<forall>r. row_by_id (resources db) i = Some r
               \<and> unat (row_comment_count r) < 4294967295 \<longrightarrow>
            CreateComment L db i c1
              = (Inr (),
                 (exec (UPDATE_comment_count i) db)
                   \<lparr>resources :=
                      map (\<lambda>x. if row_id x = i
                                then r\<lparr>row_comment_count := row_comment_count r + 1\<rparr>
                                else x)
                        (resources db),
                    resources_updated_at :=
                      (resources_updated_at db)(i \<mapsto> server_time db)\<rparr>)
          \<and> unat (row_comment_count r + 1) = unat (row_comment_count r) + 1
          \<and> row_by_id (resources (snd (CreateComment L db i c1))) i
              = Some (r\<lparr>row_comment_count := row_comment_count r + 1\<rparr>))
       \<and> (\<forall>j. j \<noteq> i \<longrightarrow>
            row_by_id (resources (snd (CreateComment L db i c1))) j
              = row_by_id (resources db) j)"
proof -
  note run = CreateComment_run [OF assms(1)]
  have same: "CreateComment L db i c1 = CreateComment L db i c2"
    by (simp add: run [OF assms(2)] run [OF assms(3)])
  have none: "row_by_id (resources db) i = None \<longrightarrow>
            CreateComment L db i c1 = (Inr (), exec (UPDATE_comment_count i) db)"
    by (simp add: run [OF assms(2)] incr_none)
  have snd_eq: "snd (CreateComment L db i c1) = snd (IncrCommentCount db i)"
    by (simp add: run [OF assms(2)] split: prod.splits sum.splits)
  have below: "\<forall>r. row_by_id (resources db) i = Some r
               \<and> unat (row_comment_count r) < 4294967295 \<longrightarrow>
            CreateComment L db i c1
              = (Inr (),
                 (exec (UPDATE_comment_count i) db)
                   \<lparr>resources :=
                      map (\<lambda>x. if row_id x = i
                                then r\<lparr>row_comment_count := row_comment_count r + 1\<rparr>
                                else x)
                        (resources db),
                    resources_updated_at :=
                      (resources_updated_at db)(i \<mapsto> server_time db)\<rparr>)
          \<and> unat (row_comment_count r + 1) = unat (row_comment_count r) + 1
          \<and> row_by_id (resources (snd (CreateComment L db i c1))) i
              = Some (r\<lparr>row_comment_count := row_comment_count r + 1\<rparr>)"
  proof (intro allI impI, elim conjE)
    fix r assume r: "row_by_id (resources db) i = Some r"
      "unat (row_comment_count r) < 4294967295"
    show "CreateComment L db i c1
              = (Inr (),
                 (exec (UPDATE_comment_count i) db)
                   \<lparr>resources :=
                      map (\<lambda>x. if row_id x = i
                                then r\<lparr>row_comment_count := row_comment_count r + 1\<rparr>
                                else x)
                        (resources db),
                    resources_updated_at :=
                      (resources_updated_at db)(i \<mapsto> server_time db)\<rparr>)
          \<and> unat (row_comment_count r + 1) = unat (row_comment_count r) + 1
          \<and> row_by_id (resources (snd (CreateComment L db i c1))) i
              = Some (r\<lparr>row_comment_count := row_comment_count r + 1\<rparr>)"
      using IncrCommentCount_below [OF r] store_uint32_succ(2) [OF r(2)]
      by (simp add: run [OF assms(2)])
  qed
  have other: "\<forall>j. j \<noteq> i \<longrightarrow>
            row_by_id (resources (snd (CreateComment L db i c1))) j
              = row_by_id (resources db) j"
    by (simp add: snd_eq IncrCommentCount_other)
  from same none below other show ?thesis by blast
qed

theorem CreateComment_only_counts_witness:
  "(1 :: uint64) \<noteq> 0 \<and> TrimSpace demo_lib ''nice'' \<noteq> [] \<and> TrimSpace demo_lib '' very useful '' \<noteq> []
   \<and> CreateComment demo_lib db_one 1 ''nice'' = CreateComment demo_lib db_one 1 '' very useful ''
   \<and> row_by_id (resources db_one) 1 = Some row_one
   \<and> unat (row_comment_count row_one) < 4294967295
   \<and> row_by_id (resources (snd (CreateComment demo_lib db_one 1 ''nice''))) 1
       = Some (row_one\<lparr>row_comment_count := 3\<rparr>)"
proof -
  have h: "(1 :: uint64) \<noteq> 0" "TrimSpace demo_lib ''nice'' \<noteq> []"
    "TrimSpace demo_lib '' very useful '' \<noteq> []"
    by (simp_all add: demo_lib_def trim_ascii_def ascii_space_def)
  have a: "row_by_id (resources db_one) 1 = Some row_one"
    by (simp add: db_one_def row_by_id_def row_one_def)
  have u: "unat (row_comment_count row_one) < 4294967295"
    by (simp add: row_one_def)
  have v: "row_comment_count row_one + 1 = 3"
    by (simp add: row_one_def)
  note th = CreateComment_only_counts [OF h, of db_one]
  have e1: "CreateComment demo_lib db_one 1 ''nice''
      = CreateComment demo_lib db_one 1 '' very useful ''"
    using th by blast
  have e2: "row_by_id (resources (snd (CreateComment demo_lib db_one 1 ''nice''))) 1
      = Some (row_one\<lparr>row_comment_count := row_comment_count row_one + 1\<rparr>)"
    using th a u by blast
  from h a u e1 e2 [unfolded v] show ?thesis by blast
qed

end
